theory Spec2Isabelle
  imports Main "HOL-Library.Multiset"
begin

section \<open>JSON values and the Python operations the program applies to them\<close>

text \<open>
  Everything the service handles is a value decoded from JSON: the bodies of the upstream
  responses, the content of the cache file, the records it emits. A Python \<open>dict\<close> is an
  association list in insertion order, looked up with \<open>map_of\<close>. JSON numbers are the
  integers. A string is the list of its code points, as Python's \<open>str\<close> is; the model
  has the code points below 256, one \<open>char\<close> each, so \<open>CHR 0xC0\<close> is the letter
  U+00C0 and not a byte of an encoding.
\<close>

datatype json =
    JNull
  | JBool bool
  | JInt int
  | JStr string
  | JList "json list"
  | JObj "(string \<times> json) list"

text \<open>The exception classes the program raises, catches or lets through.\<close>

datatype exn =
    ClientError string
  | TimeoutError string
  | JSONDecodeError string
  | FileNotFoundError string
  | PermissionError string
  | KeyError string
  | AttributeError string string
  | TypeError string
  | HTTPException int string

fun show_nat :: "nat \<Rightarrow> string" where
  "show_nat n =
     (if n < 10 then [''0123456789'' ! n]
      else show_nat (n div 10) @ [''0123456789'' ! (n mod 10)])"

declare show_nat.simps [simp del]

definition show_int :: "int \<Rightarrow> string" where
  "show_int i = (if i < 0 then CHR ''-'' # show_nat (nat (- i)) else show_nat (nat i))"

fun join :: "string \<Rightarrow> string list \<Rightarrow> string" where
  "join sep [] = []"
| "join sep [x] = x"
| "join sep (x # y # ys) = x @ sep @ join sep (y # ys)"

text \<open>
  \<open>repr\<close> of a string: the quote Python picks, and its escapes. Below 256 the code
  points that are not printable are the controls (0 to 31, 127 to 159), the no-break
  space 160 and the soft hyphen 173.
\<close>

definition hex2 :: "nat \<Rightarrow> string" where
  "hex2 n = [''0123456789abcdef'' ! (n div 16), ''0123456789abcdef'' ! (n mod 16)]"

definition repr_char :: "char \<Rightarrow> char \<Rightarrow> string" where
  "repr_char q c =
     (if c = CHR 0x5C then [CHR 0x5C, CHR 0x5C]
      else if c = q then [CHR 0x5C, q]
      else if c = CHR 0x09 then [CHR 0x5C, CHR ''t'']
      else if c = CHR 0x0A then [CHR 0x5C, CHR ''n'']
      else if c = CHR 0x0D then [CHR 0x5C, CHR ''r'']
      else if (of_char c :: nat) < 32 \<or> (of_char c :: nat) = 127
              \<or> (128 \<le> (of_char c :: nat) \<and> (of_char c :: nat) \<le> 160)
              \<or> (of_char c :: nat) = 173
        then [CHR 0x5C, CHR ''x''] @ hex2 (of_char c)
      else [c])"

definition repr_str :: "string \<Rightarrow> string" where
  "repr_str s =
     (let q = (if CHR 0x27 \<in> set s \<and> CHR 0x22 \<notin> set s then CHR 0x22 else CHR 0x27)
      in [q] @ concat (map (repr_char q) s) @ [q])"

fun py_repr :: "json \<Rightarrow> string" where
  "py_repr JNull = ''None''"
| "py_repr (JBool b) = (if b then ''True'' else ''False'')"
| "py_repr (JInt i) = show_int i"
| "py_repr (JStr s) = repr_str s"
| "py_repr (JList xs) = ''['' @ join '', '' (map py_repr xs) @ '']''"
| "py_repr (JObj kvs) =
     ''{'' @ join '', '' (map (\<lambda>(k, v). repr_str k @ '': '' @ py_repr v) kvs) @ ''}''"

text \<open>What an f-string puts in place of \<open>{x}\<close>.\<close>

definition py_str :: "json \<Rightarrow> string" where
  "py_str x = (case x of JStr s \<Rightarrow> s | _ \<Rightarrow> py_repr x)"

definition type_name :: "json \<Rightarrow> string" where
  "type_name x =
     (case x of JNull \<Rightarrow> ''NoneType'' | JBool _ \<Rightarrow> ''bool'' | JInt _ \<Rightarrow> ''int''
      | JStr _ \<Rightarrow> ''str'' | JList _ \<Rightarrow> ''list'' | JObj _ \<Rightarrow> ''dict'')"

definition str_exn :: "exn \<Rightarrow> string" where
  "str_exn e =
     (case e of
        ClientError m \<Rightarrow> m
      | TimeoutError m \<Rightarrow> m
      | JSONDecodeError m \<Rightarrow> m
      | FileNotFoundError m \<Rightarrow> m
      | PermissionError m \<Rightarrow> m
      | KeyError k \<Rightarrow> repr_str k
      | AttributeError t a \<Rightarrow>
          [CHR 0x27] @ t @ [CHR 0x27] @ '' object has no attribute '' @ [CHR 0x27] @ a @ [CHR 0x27]
      | TypeError m \<Rightarrow> m
      | HTTPException c d \<Rightarrow> show_int c @ '': '' @ d)"

text \<open>Truth value of a JSON value in a condition.\<close>

definition truthy :: "json \<Rightarrow> bool" where
  "truthy x =
     (case x of JNull \<Rightarrow> False | JBool b \<Rightarrow> b | JInt i \<Rightarrow> i \<noteq> 0
      | JStr s \<Rightarrow> s \<noteq> [] | JList xs \<Rightarrow> xs \<noteq> [] | JObj kvs \<Rightarrow> kvs \<noteq> [])"

text \<open>\<open>d.get(k)\<close> and \<open>d.get(k, default)\<close> on a dict.\<close>

definition py_get :: "(string \<times> json) list \<Rightarrow> string \<Rightarrow> json" where
  "py_get d k = (case map_of d k of None \<Rightarrow> JNull | Some v \<Rightarrow> v)"

definition py_get_default :: "(string \<times> json) list \<Rightarrow> string \<Rightarrow> json \<Rightarrow> json" where
  "py_get_default d k dflt = (case map_of d k of None \<Rightarrow> dflt | Some v \<Rightarrow> v)"

text \<open>\<open>len(x)\<close> and \<open>for y in x\<close>: both raise \<open>TypeError\<close> on a value that is no container.\<close>

definition py_len :: "json \<Rightarrow> exn + nat" where
  "py_len x =
     (case x of JStr s \<Rightarrow> Inr (length s) | JList xs \<Rightarrow> Inr (length xs)
      | JObj kvs \<Rightarrow> Inr (length kvs)
      | _ \<Rightarrow> Inl (TypeError (''object of type '' @ [CHR 0x27] @ type_name x @ [CHR 0x27]
                            @ '' has no len()'')))"

definition py_iter :: "json \<Rightarrow> exn + json list" where
  "py_iter x =
     (case x of JList xs \<Rightarrow> Inr xs
      | JObj kvs \<Rightarrow> Inr (map (\<lambda>(k, v). JStr k) kvs)
      | JStr s \<Rightarrow> Inr (map (\<lambda>c. JStr [c]) s)
      | _ \<Rightarrow> Inl (TypeError ([CHR 0x27] @ type_name x @ [CHR 0x27]
                            @ '' object is not iterable'')))"

text \<open>
  \<open>str.lower\<close>. Below 256 the code points it changes are the letters \<open>A\<close> to \<open>Z\<close> (65
  to 90) and U+00C0 to U+00DE without the multiplication sign U+00D7 (192 to 222 without
  215); each goes to the code point 32 above it, its place in \<open>lower_letters\<close>.
\<close>

definition upper_letters :: string where
  "upper_letters =
     ''ABCDEFGHIJKLMNOPQRSTUVWXYZ'' @
       [CHR 0xC0, CHR 0xC1, CHR 0xC2, CHR 0xC3, CHR 0xC4, CHR 0xC5, CHR 0xC6, CHR 0xC7,
        CHR 0xC8, CHR 0xC9, CHR 0xCA, CHR 0xCB, CHR 0xCC, CHR 0xCD, CHR 0xCE, CHR 0xCF,
        CHR 0xD0, CHR 0xD1, CHR 0xD2, CHR 0xD3, CHR 0xD4, CHR 0xD5, CHR 0xD6, CHR 0xD8,
        CHR 0xD9, CHR 0xDA, CHR 0xDB, CHR 0xDC, CHR 0xDD, CHR 0xDE]"

definition lower_letters :: string where
  "lower_letters =
     ''abcdefghijklmnopqrstuvwxyz'' @
       [CHR 0xE0, CHR 0xE1, CHR 0xE2, CHR 0xE3, CHR 0xE4, CHR 0xE5, CHR 0xE6, CHR 0xE7,
        CHR 0xE8, CHR 0xE9, CHR 0xEA, CHR 0xEB, CHR 0xEC, CHR 0xED, CHR 0xEE, CHR 0xEF,
        CHR 0xF0, CHR 0xF1, CHR 0xF2, CHR 0xF3, CHR 0xF4, CHR 0xF5, CHR 0xF6, CHR 0xF8,
        CHR 0xF9, CHR 0xFA, CHR 0xFB, CHR 0xFC, CHR 0xFD, CHR 0xFE]"

definition lower_char :: "char \<Rightarrow> char" where
  "lower_char c = (case map_of (zip upper_letters lower_letters) c of None \<Rightarrow> c | Some l \<Rightarrow> l)"

definition lower :: "string \<Rightarrow> string" where
  "lower s = map lower_char s"


section \<open>Result normalizer\<close>

text \<open>
  \<^verbatim>\<open>
  def create_magnet_link(result):
      torrenturl = result.get("Link")
      infohash = result.get("InfoHash")
      magneturi = result.get("MagnetUri")
      if magneturi is not None:
          return magneturi
      elif torrenturl is not None and infohash is not None:
          return f"magnet:?xt=urn:btih:{infohash.lower()}"
      else:
          return torrenturl
  \<close>
  \<open>infohash.lower()\<close> raises \<open>AttributeError\<close> when the info-hash is not a string.
\<close>

definition create_magnet_link :: "(string \<times> json) list \<Rightarrow> exn + json" where
  "create_magnet_link result =
     (let torrenturl = py_get result ''Link'';
          infohash = py_get result ''InfoHash'';
          magneturi = py_get result ''MagnetUri''
      in if magneturi \<noteq> JNull then Inr magneturi
         else if torrenturl \<noteq> JNull \<and> infohash \<noteq> JNull then
           (case infohash of
              JStr h \<Rightarrow> Inr (JStr (''magnet:?xt=urn:btih:'' @ lower h))
            | _ \<Rightarrow> Inl (AttributeError (type_name infohash) ''lower''))
         else Inr torrenturl)"

text \<open>
  \<^verbatim>\<open>
  def trimmed_result(result):
      return {
          "Title": result.get("Title"),
          "Link": create_magnet_link(result),
          "Size": result.get("Size"),
          "Seeders": result.get("Seeders"),
          "Leechers": result.get("Leechers"),
          "InfoHash": result.get("InfoHash"),
          "IndexerId": result.get("Tracker"),
          'year': result.get('Year'),
          "Details": result.get("Details"),
      }
  \<close>
  The argument is an element of the upstream \<open>Results\<close> list; \<open>.get\<close> on anything but a
  dict raises \<open>AttributeError\<close>.
\<close>

definition trimmed_result :: "json \<Rightarrow> exn + json" where
  "trimmed_result result =
     (case result of
        JObj r \<Rightarrow>
          (case create_magnet_link r of
             Inl e \<Rightarrow> Inl e
           | Inr link \<Rightarrow>
               Inr (JObj [(''Title'', py_get r ''Title''),
                          (''Link'', link),
                          (''Size'', py_get r ''Size''),
                          (''Seeders'', py_get r ''Seeders''),
                          (''Leechers'', py_get r ''Leechers''),
                          (''InfoHash'', py_get r ''InfoHash''),
                          (''IndexerId'', py_get r ''Tracker''),
                          (''year'', py_get r ''Year''),
                          (''Details'', py_get r ''Details'')]))
      | _ \<Rightarrow> Inl (AttributeError (type_name result) ''get''))"


section \<open>Backend query executor\<close>

text \<open>
  The environment variables read at import, either of which may be unset (\<open>None\<close>), and
  the network: what a GET of a URL with the given parameters does. A response carries its
  status, its reason phrase and what \<open>await response.json()\<close> gives or raises.
\<close>

record config =
  JACKETT_API_URL :: json
  API_KEY :: json

datatype http_result =
    Raised exn
  | Responded int string "exn + json"

type_synonym http = "string \<Rightarrow> (string \<times> json) list \<Rightarrow> http_result"

definition get_search_results_url :: "config \<Rightarrow> json \<Rightarrow> string" where
  "get_search_results_url cfg indexer_id =
     py_str (JACKETT_API_URL cfg) @ ''/api/v2.0/indexers/'' @ py_str indexer_id @ ''/results''"

definition error_record :: "string \<Rightarrow> json" where
  "error_record msg = JObj [(''error'', JStr msg)]"

text \<open>
  FastAPI's \<open>jsonable_encoder\<close>, called with its defaults (\<open>sqlalchemy_safe=True\<close>,
  \<open>exclude_none=False\<close>): it returns \<open>None\<close>, a number or a string as it is, encodes the
  items of a list, and in a dict leaves out every key that starts with \<open>_sa\<close> and
  encodes the values of the others, at every depth.
\<close>

definition starts_with_sa :: "string \<Rightarrow> bool" where
  "starts_with_sa key = (take 3 key = ''_sa'')"

fun jsonable_encoder :: "json \<Rightarrow> json" where
  "jsonable_encoder (JList xs) = JList (map jsonable_encoder xs)"
| "jsonable_encoder (JObj kvs) =
     JObj (filter (\<lambda>(key, v). \<not> starts_with_sa key)
             (map (\<lambda>(key, v). (key, jsonable_encoder v)) kvs))"
| "jsonable_encoder x = x"

text \<open>
  The comprehension \<open>[jsonable_encoder(trimmed_result(result)) for result in results]\<close>:
  the first element that raises ends it.
\<close>

fun trimmed_results :: "json list \<Rightarrow> exn + json list" where
  "trimmed_results [] = Inr []"
| "trimmed_results (result # results) =
     (case trimmed_result result of
        Inl e \<Rightarrow> Inl e
      | Inr t \<Rightarrow>
          (case trimmed_results results of
             Inl e \<Rightarrow> Inl e
           | Inr ts \<Rightarrow> Inr (jsonable_encoder t # ts)))"

text \<open>
  \<^verbatim>\<open>
  async def fetch_jackett_results_for_indexer(session, indexer_id: str, query: str):
      url = get_search_results_url(indexer_id)
      params = {"apikey": API_KEY, "Query": query}
      try:
          async with session.get(url, params=params) as response:
              if response.status == 200:
                  data = await response.json()
                  results = data.get("Results", [])
                  logger.info(f"Indexer {indexer_id} returned {len(results)} results.")
                  return [jsonable_encoder(trimmed_result(result)) for result in results]
              else:
                  logger.error(...)
                  return [{"error": f"Error fetching from indexer {indexer_id}: {response.status}"}]
      except Exception as e:
          logger.error(...)
          return [{"error": f"Exception fetching from indexer {indexer_id}: {str(e)}"}]
  \<close>
  \<open>results_reply\<close> is what \<open>session.get(url, params=params)\<close> meets, \<open>fetch_attempt\<close> the
  body of the \<open>try\<close>, \<open>Inl\<close> where it raises; the function itself adds the handler. The log lines are left out, but not the \<open>len(results)\<close> that one of
  them evaluates.
\<close>

definition results_reply :: "config \<Rightarrow> http \<Rightarrow> json \<Rightarrow> string \<Rightarrow> http_result" where
  "results_reply cfg net indexer_id query =
     net (get_search_results_url cfg indexer_id)
         [(''apikey'', API_KEY cfg), (''Query'', JStr query)]"

definition fetch_attempt :: "config \<Rightarrow> http \<Rightarrow> json \<Rightarrow> string \<Rightarrow> exn + json list" where
  "fetch_attempt cfg net indexer_id query =
     (case results_reply cfg net indexer_id query of
        Raised e \<Rightarrow> Inl e
      | Responded status reason body \<Rightarrow>
          if status = 200 then
            (case body of
               Inl e \<Rightarrow> Inl e
             | Inr data \<Rightarrow>
                 (case data of
                    JObj d \<Rightarrow>
                      (let results = py_get_default d ''Results'' (JList [])
                       in case py_len results of
                            Inl e \<Rightarrow> Inl e
                          | Inr n \<Rightarrow>
                              (case py_iter results of
                                 Inl e \<Rightarrow> Inl e
                               | Inr rs \<Rightarrow> trimmed_results rs))
                  | _ \<Rightarrow> Inl (AttributeError (type_name data) ''get'')))
          else Inr [error_record (''Error fetching from indexer '' @ py_str indexer_id
                                  @ '': '' @ show_int status)])"

definition fetch_jackett_results_for_indexer ::
  "config \<Rightarrow> http \<Rightarrow> json \<Rightarrow> string \<Rightarrow> json list" where
  "fetch_jackett_results_for_indexer cfg net indexer_id query =
     (case fetch_attempt cfg net indexer_id query of
        Inr batch \<Rightarrow> batch
      | Inl e \<Rightarrow> [error_record (''Exception fetching from indexer '' @ py_str indexer_id
                                 @ '': '' @ str_exn e)])"

text \<open>\<open>process_indexer\<close> times the call and logs; its result is the executor's.\<close>

definition process_indexer :: "config \<Rightarrow> http \<Rightarrow> json \<Rightarrow> string \<Rightarrow> json list" where
  "process_indexer cfg net indexer_id query =
     fetch_jackett_results_for_indexer cfg net indexer_id query"


section \<open>Indexer registry cache\<close>

text \<open>
  The module state is the global \<open>last_cache_update\<close> and, outside the process, the file
  \<open>configured_indexers.json\<close>: absent, holding text that \<open>json.load\<close> rejects (with the
  decoder's message), or holding a JSON value. The journal records, oldest first, what a
  call did to the outside: the GET requests of the registry and its log lines.
  Times are microseconds, the resolution of \<open>datetime\<close>.
\<close>

datatype cache = Absent | Garbled string | Stored json

datatype effect = Get string | LogInfo string | LogError string

record state =
  last_cache_update :: int
  CACHE_FILE :: cache
  journal :: "effect list"

text \<open>
  What the outside does during one request: the network, the two readings of
  \<open>datetime.now()\<close> (at the freshness test and after the refresh), an exception that
  opening or reading the file raises whatever it holds (a lost race, a permission), one
  that opening it for writing raises, and the order in which the tasks of the fan-out
  complete, as a permutation of their positions.
\<close>

record world =
  net :: http
  now_at_check :: int
  read_raises :: "exn option"
  write_raises :: "exn option"
  now_at_stamp :: int
  completion :: "nat list"

definition CACHE_DURATION :: int where
  "CACHE_DURATION = 30 * 60 * 1000000"

text \<open>At import: \<open>last_cache_update = datetime.now()\<close>.\<close>

definition process_start :: "int \<Rightarrow> cache \<Rightarrow> state" where
  "process_start now file = \<lparr>last_cache_update = now, CACHE_FILE = file, journal = []\<rparr>"

definition emit :: "effect list \<Rightarrow> state \<Rightarrow> state" where
  "emit fx s = s\<lparr>journal := journal s @ fx\<rparr>"

definition is_get :: "effect \<Rightarrow> bool" where
  "is_get x = (case x of Get _ \<Rightarrow> True | _ \<Rightarrow> False)"

definition upstream_calls :: "state \<Rightarrow> nat" where
  "upstream_calls s = length (filter is_get (journal s))"

text \<open>
  The comprehension
  \<open>[indexer["id"] for indexer in indexers_data if indexer.get("configured", False)]\<close>:
  the condition is evaluated first, and \<open>indexer["id"]\<close> only where it holds.
\<close>

fun configured_ids :: "json list \<Rightarrow> exn + json list" where
  "configured_ids [] = Inr []"
| "configured_ids (indexer # rest) =
     (case indexer of
        JObj d \<Rightarrow>
          if truthy (py_get_default d ''configured'' (JBool False)) then
            (case map_of d ''id'' of
               None \<Rightarrow> Inl (KeyError ''id'')
             | Some v \<Rightarrow>
                 (case configured_ids rest of
                    Inl e \<Rightarrow> Inl e
                  | Inr vs \<Rightarrow> Inr (v # vs)))
          else configured_ids rest
      | _ \<Rightarrow> Inl (AttributeError (type_name indexer) ''get''))"

text \<open>
  \<^verbatim>\<open>
  async def get_configured_indexers():
      async with aiohttp.ClientSession() as session:
          params = {"apikey": API_KEY}
          url = f"{JACKETT_API_URL}/api/v2.0/indexers"
          try:
              async with session.get(url, params=params) as response:
                  if response.status == 200:
                      indexers_data = await response.json()
                      configured_indexers = [indexer["id"] for indexer in indexers_data
                                             if indexer.get("configured", False)]
                      return configured_indexers
                  else:
                      error_message = f"Jackett API Error: {response.status} - {response.reason}"
                      logger.error(error_message)
                      raise HTTPException(status_code=response.status, detail=error_message)
          except aiohttp.ClientError as e:
              error_message = f"Error connecting to Jackett API: {str(e)}"
              logger.error(error_message)
              raise HTTPException(status_code=500, detail=error_message)
  \<close>
  \<open>indexers_reply\<close> is what \<open>session.get(url, params=params)\<close> meets,
  \<open>indexers_attempt\<close> the body of the \<open>try\<close>. The handler takes \<open>ClientError\<close> only:
  every other exception leaves the function as it is.
\<close>

definition indexers_url :: "config \<Rightarrow> string" where
  "indexers_url cfg = py_str (JACKETT_API_URL cfg) @ ''/api/v2.0/indexers''"

definition indexers_reply :: "config \<Rightarrow> http \<Rightarrow> http_result" where
  "indexers_reply cfg nt = nt (indexers_url cfg) [(''apikey'', API_KEY cfg)]"

definition indexers_attempt :: "config \<Rightarrow> http \<Rightarrow> (exn + json list) \<times> effect list" where
  "indexers_attempt cfg nt =
     (case indexers_reply cfg nt of
        Raised e \<Rightarrow> (Inl e, [])
      | Responded status reason body \<Rightarrow>
          if status = 200 then
            (case body of
               Inl e \<Rightarrow> (Inl e, [])
             | Inr indexers_data \<Rightarrow>
                 (case py_iter indexers_data of
                    Inl e \<Rightarrow> (Inl e, [])
                  | Inr xs \<Rightarrow> (configured_ids xs, [])))
          else
            (let error_message =
               ''Jackett API Error: '' @ show_int status @ '' - '' @ reason
             in (Inl (HTTPException status error_message), [LogError error_message])))"

definition get_configured_indexers :: "config \<Rightarrow> http \<Rightarrow> (exn + json list) \<times> effect list" where
  "get_configured_indexers cfg nt =
     (case indexers_attempt cfg nt of
        (Inr ids, fx) \<Rightarrow> (Inr ids, Get (indexers_url cfg) # fx)
      | (Inl e, fx) \<Rightarrow>
          (case e of
             ClientError m \<Rightarrow>
               (let error_message = ''Error connecting to Jackett API: '' @ str_exn e
                in (Inl (HTTPException 500 error_message),
                    Get (indexers_url cfg) # fx @ [LogError error_message]))
           | _ \<Rightarrow> (Inl e, Get (indexers_url cfg) # fx)))"

text \<open>\<open>except (FileNotFoundError, json.JSONDecodeError)\<close>, on the read and on the write.\<close>

definition cache_handler_catches :: "exn \<Rightarrow> bool" where
  "cache_handler_catches e =
     (case e of FileNotFoundError _ \<Rightarrow> True | JSONDecodeError _ \<Rightarrow> True | _ \<Rightarrow> False)"

text \<open>\<open>with open(CACHE_FILE, "r") as f: return json.load(f)\<close>\<close>

definition load_cache :: "world \<Rightarrow> state \<Rightarrow> exn + json" where
  "load_cache w s =
     (case read_raises w of
        Some e \<Rightarrow> Inl e
      | None \<Rightarrow>
          (case CACHE_FILE s of
             Absent \<Rightarrow> Inl (FileNotFoundError
               (''[Errno 2] No such file or directory: '' @ repr_str ''configured_indexers.json''))
           | Garbled m \<Rightarrow> Inl (JSONDecodeError m)
           | Stored j \<Rightarrow> Inr j))"

text \<open>
  \<^verbatim>\<open>
  try:
      with open(CACHE_FILE, "w") as f:
          json.dump(configured_indexers, f)
  except (FileNotFoundError, json.JSONDecodeError) as e:
      logger.error(f"Error saving cache file: {e}")
  \<close>
  The block is in \<open>get_configured_indexers_from_file\<close> and in \<open>get_indexers\<close>. An
  exception it does not catch is returned in \<open>Some\<close>.
\<close>

definition save_cache :: "world \<Rightarrow> json list \<Rightarrow> state \<Rightarrow> exn option \<times> state" where
  "save_cache w configured_indexers s =
     (case write_raises w of
        None \<Rightarrow> (None, s\<lparr>CACHE_FILE := Stored (JList configured_indexers)\<rparr>)
      | Some e \<Rightarrow>
          if cache_handler_catches e
          then (None, emit [LogError (''Error saving cache file: '' @ str_exn e)] s)
          else (Some e, s))"

text \<open>
  \<^verbatim>\<open>
  async def get_configured_indexers_from_file():
      global last_cache_update
      if os.path.exists(CACHE_FILE) and datetime.now() - last_cache_update < CACHE_DURATION:
          try:
              with open(CACHE_FILE, "r") as f:
                  return json.load(f)
          except (FileNotFoundError, json.JSONDecodeError) as e:
              logger.error(f"Error reading cache file: {e}")
      logger.info("Cache is stale or doesn't exist. Fetching configured indexers from Jackett...")
      configured_indexers = await get_configured_indexers()
      try: ... (the block above)
      last_cache_update = datetime.now()
      return configured_indexers
  \<close>
  \<open>refresh_registry\<close> is the function from its \<open>logger.info\<close> line on.
\<close>

definition refresh_registry :: "config \<Rightarrow> world \<Rightarrow> state \<Rightarrow> (exn + json) \<times> state" where
  "refresh_registry cfg w s =
     (let s1 = emit [LogInfo
            ''Cache is stale or doesn't exist. Fetching configured indexers from Jackett...''] s
      in case get_configured_indexers cfg (net w) of
           (Inl e, fx) \<Rightarrow> (Inl e, emit fx s1)
         | (Inr configured_indexers, fx) \<Rightarrow>
             (case save_cache w configured_indexers (emit fx s1) of
                (Some e, s2) \<Rightarrow> (Inl e, s2)
              | (None, s2) \<Rightarrow>
                  (Inr (JList configured_indexers),
                   s2\<lparr>last_cache_update := now_at_stamp w\<rparr>)))"

definition get_configured_indexers_from_file ::
  "config \<Rightarrow> world \<Rightarrow> state \<Rightarrow> (exn + json) \<times> state" where
  "get_configured_indexers_from_file cfg w s =
     (if CACHE_FILE s \<noteq> Absent \<and> now_at_check w - last_cache_update s < CACHE_DURATION then
        (case load_cache w s of
           Inr j \<Rightarrow> (Inr j, s)
         | Inl e \<Rightarrow>
             if cache_handler_catches e
             then refresh_registry cfg w
                    (emit [LogError (''Error reading cache file: '' @ str_exn e)] s)
             else (Inl e, s))
      else refresh_registry cfg w s)"

text \<open>
  \<^verbatim>\<open>
  @app.get("/indexers")
  async def get_indexers():
      configured_indexers = await get_configured_indexers()
      try: ... (the block above)
      return JSONResponse(content={"indexers": configured_indexers})
  \<close>
\<close>

definition get_indexers :: "config \<Rightarrow> world \<Rightarrow> state \<Rightarrow> (exn + json) \<times> state" where
  "get_indexers cfg w s =
     (case get_configured_indexers cfg (net w) of
        (Inl e, fx) \<Rightarrow> (Inl e, emit fx s)
      | (Inr configured_indexers, fx) \<Rightarrow>
          (case save_cache w configured_indexers (emit fx s) of
             (Some e, s') \<Rightarrow> (Inl e, s')
           | (None, s') \<Rightarrow> (Inr (JObj [(''indexers'', JList configured_indexers)]), s')))"


section \<open>Fan-out aggregator\<close>

text \<open>
  \<^verbatim>\<open>
  async def event_generator(query: str):
      configured_indexers = await get_configured_indexers_from_file()
      async with aiohttp.ClientSession() as session:
          tasks = [asyncio.create_task(process_indexer(session, indexer_id, query))
                   for indexer_id in configured_indexers]
          for completed_task in asyncio.as_completed(tasks):
              results = await completed_task
              for item in results:
                  yield f"data: {json.dumps(item)}\n\n"
  \<close>
  \<open>as_completed\<close> hands the tasks over in the order they finish, which the world chooses:
  \<open>completion w\<close> lists the positions of the tasks in that order, each position once
  (\<open>completes\<close>). An event \<open>Data item\<close> stands for the text
  \<open>data: \<close>, \<open>json.dumps(item)\<close> and two newlines.
\<close>

datatype sse_event = Data json

definition completes :: "nat list \<Rightarrow> 'a list \<Rightarrow> bool" where
  "completes order tasks = (mset order = mset [0..<length tasks])"

definition as_completed :: "nat list \<Rightarrow> 'a list \<Rightarrow> 'a list" where
  "as_completed order tasks = map (\<lambda>i. tasks ! i) order"

definition event_generator ::
  "config \<Rightarrow> world \<Rightarrow> string \<Rightarrow> state \<Rightarrow> (exn + sse_event list) \<times> state" where
  "event_generator cfg w query s =
     (case get_configured_indexers_from_file cfg w s of
        (Inl e, s') \<Rightarrow> (Inl e, s')
      | (Inr configured_indexers, s') \<Rightarrow>
          (case py_iter configured_indexers of
             Inl e \<Rightarrow> (Inl e, s')
           | Inr ids \<Rightarrow>
               (let tasks = map (\<lambda>indexer_id. process_indexer cfg (net w) indexer_id query) ids
                in (Inr (map Data (concat (as_completed (completion w) tasks))), s'))))"

text \<open>\<open>search\<close> wraps the generator in a \<open>StreamingResponse\<close>.\<close>

definition search :: "config \<Rightarrow> world \<Rightarrow> string \<Rightarrow> state \<Rightarrow> (exn + sse_event list) \<times> state" where
  "search cfg w query s = event_generator cfg w query s"

definition is_error_record :: "json \<Rightarrow> bool" where
  "is_error_record item = (case item of JObj [(k, JStr m)] \<Rightarrow> k = ''error'' | _ \<Rightarrow> False)"


section \<open>Vocabulary of the properties\<close>

text \<open>The \<open>Link\<close> field of the record the normalizer returns for a raw result.\<close>

definition normalized_link :: "json \<Rightarrow> json option" where
  "normalized_link result =
     (case trimmed_result result of Inr (JObj out) \<Rightarrow> map_of out ''Link'' | _ \<Rightarrow> None)"

text \<open>
  A backend call succeeds with the normalized results \<open>ns\<close>: status 200, a body that is a
  dict whose \<open>Results\<close> (the empty list when absent) is a list, each element of which
  normalizes; \<open>ns\<close> are the normalized records, encoded, in the order of \<open>Results\<close>.
\<close>

definition succeeds_with :: "http_result \<Rightarrow> json list \<Rightarrow> bool" where
  "succeeds_with reply ns =
     (case reply of
        Responded status reason (Inr (JObj d)) \<Rightarrow>
          status = 200 \<and>
          (case py_get_default d ''Results'' (JList []) of
             JList rs \<Rightarrow>
               map (\<lambda>r. map_sum (\<lambda>e. e) jsonable_encoder (trimmed_result r)) rs = map Inr ns
           | _ \<Rightarrow> False)
      | _ \<Rightarrow> False)"

text \<open>
  A backend call fails: the request raises, or the status is not 200, or the body of a
  200 cannot be decoded.
\<close>

definition fails :: "http_result \<Rightarrow> bool" where
  "fails reply =
     (case reply of
        Raised e \<Rightarrow> True
      | Responded status reason body \<Rightarrow>
          status \<noteq> 200 \<or> (case body of Inl e \<Rightarrow> True | Inr data \<Rightarrow> False))"

definition is_error_event :: "sse_event \<Rightarrow> bool" where
  "is_error_event ev = (case ev of Data item \<Rightarrow> is_error_record item)"


section \<open>A deployment to run the definitions on\<close>

text \<open>
  A Jackett at \<open>http://jackett:9117\<close> with four indexers, three of them configured:
  \<open>yts\<close> and \<open>nyaa\<close> answer a search with one result each, \<open>eztv\<close> with a 503.
\<close>

definition example_config :: config where
  "example_config = \<lparr>JACKETT_API_URL = JStr ''http://jackett:9117'', API_KEY = JStr ''k''\<rparr>"

definition example_net :: http where
  "example_net url params =
     (if url = ''http://jackett:9117/api/v2.0/indexers'' then
        Responded 200 ''OK'' (Inr (JList
          [JObj [(''id'', JStr ''yts''), (''configured'', JBool True)],
           JObj [(''id'', JStr ''rarbg'')],
           JObj [(''id'', JStr ''eztv''), (''configured'', JBool True)],
           JObj [(''id'', JStr ''nyaa''), (''configured'', JBool True)]]))
      else if url = ''http://jackett:9117/api/v2.0/indexers/yts/results'' then
        Responded 200 ''OK'' (Inr (JObj [(''Results'', JList
          [JObj [(''Title'', JStr ''Ubuntu''), (''MagnetUri'', JStr ''magnet:?xt=urn:btih:aa''),
                 (''Tracker'', JStr ''yts'')]])]))
      else if url = ''http://jackett:9117/api/v2.0/indexers/eztv/results'' then
        Responded 503 ''Service Unavailable'' (Inl (JSONDecodeError ''Expecting value''))
      else if url = ''http://jackett:9117/api/v2.0/indexers/nyaa/results'' then
        Responded 200 ''OK'' (Inr (JObj [(''Results'', JList
          [JObj [(''Title'', JStr ''Debian''), (''Link'', JStr ''http://nyaa.example/1.torrent''),
                 (''InfoHash'', JStr ''AB12''), (''Tracker'', JStr ''nyaa'')]])]))
      else Raised (ClientError ''Cannot connect to host''))"

definition example_world :: world where
  "example_world = \<lparr>net = example_net, now_at_check = 1000000, read_raises = None,
     write_raises = None, now_at_stamp = 2000000, completion = [2, 0, 1]\<rparr>"

definition cached_state :: "json \<Rightarrow> state" where
  "cached_state registry = process_start 0 (Stored registry)"

text \<open>What the normalizer makes of the results of \<open>yts\<close> and of \<open>nyaa\<close>.\<close>

definition yts_results :: "json list" where
  "yts_results = [JObj [(''Title'', JStr ''Ubuntu''), (''Link'', JStr ''magnet:?xt=urn:btih:aa''),
     (''Size'', JNull), (''Seeders'', JNull), (''Leechers'', JNull), (''InfoHash'', JNull),
     (''IndexerId'', JStr ''yts''), (''year'', JNull), (''Details'', JNull)]]"

definition nyaa_results :: "json list" where
  "nyaa_results = [JObj [(''Title'', JStr ''Debian''), (''Link'', JStr ''magnet:?xt=urn:btih:ab12''),
     (''Size'', JNull), (''Seeders'', JNull), (''Leechers'', JNull), (''InfoHash'', JStr ''AB12''),
     (''IndexerId'', JStr ''nyaa''), (''year'', JNull), (''Details'', JNull)]]"

text \<open>
  The identifiers the example upstream reports as configured; a \<open>yts\<close> that answers
  with 200 and two results, the second with a number for its info-hash; and an upstream
  whose list has an entry without \<open>configured\<close> and an entry that is configured but has
  no \<open>id\<close>.
\<close>

definition example_ids :: "json list" where
  "example_ids = [JStr ''yts'', JStr ''eztv'', JStr ''nyaa'']"

definition mixed_net :: http where
  "mixed_net url params =
     (if url = ''http://jackett:9117/api/v2.0/indexers/yts/results'' then
        Responded 200 ''OK'' (Inr (JObj [(''Results'', JList
          [JObj [(''Title'', JStr ''Ubuntu''), (''MagnetUri'', JStr ''magnet:?xt=urn:btih:aa''),
                 (''Tracker'', JStr ''yts'')],
           JObj [(''Title'', JStr ''Debian''), (''Link'', JStr ''http://yts.example/2.torrent''),
                 (''InfoHash'', JInt 5), (''Tracker'', JStr ''yts'')]])]))
      else Raised (ClientError ''Cannot connect to host''))"

definition broken_net :: http where
  "broken_net url params =
     (if url = ''http://jackett:9117/api/v2.0/indexers'' then
        Responded 200 ''OK'' (Inr (JList
          [JObj [(''id'', JStr ''yts''), (''configured'', JBool True)],
           JObj [(''id'', JStr ''rarbg'')],
           JObj [(''name'', JStr ''eztv''), (''configured'', JBool True)]]))
      else Raised (ClientError ''Cannot connect to host''))"


section \<open>The normalizer\<close>

lemma create_magnet_link_None:
  "py_get r ''MagnetUri'' = JNull \<Longrightarrow> py_get r ''Link'' \<noteq> JNull \<Longrightarrow> py_get r ''InfoHash'' = JStr h
   \<Longrightarrow> create_magnet_link r = Inr (JStr (''magnet:?xt=urn:btih:'' @ lower h))"
  by (simp add: create_magnet_link_def)

lemma normalized_link_eq:
  "create_magnet_link r = Inr l \<Longrightarrow> normalized_link (JObj r) = Some l"
  by (simp add: normalized_link_def trimmed_result_def)

lemma py_get_Cons: "py_get ((k, v) # r) k' = (if k' = k then v else py_get r k')"
  by (simp add: py_get_def)

text \<open>
  Claim C3, as the code has it. When the raw result has no magnet URI (the key is absent
  or its value is \<open>None\<close>) and both its torrent URL and its info-hash are non-empty
  strings, the info-hash of ASCII characters, the \<open>Link\<close> of the normalized record is
  \<open>magnet:?xt=urn:btih:\<close> followed by the lowercased info-hash, and the torrent URL is
  discarded: whatever URL the raw result carries, \<open>Link\<close> is the same.
\<close>

theorem magnet_synthesized_when_magnet_uri_is_none:
  assumes "py_get r ''MagnetUri'' = JNull"
    and "py_get r ''Link'' = JStr url" and "url \<noteq> []"
    and "py_get r ''InfoHash'' = JStr h" and "h \<noteq> []"
    and "\<forall>c\<in>set h. (of_char c :: nat) < 128"
  shows "normalized_link (JObj r) = Some (JStr (''magnet:?xt=urn:btih:'' @ lower h))
       \<and> (\<forall>url'. normalized_link (JObj ((''Link'', JStr url') # r)) = normalized_link (JObj r))"
proof -
  have a: "create_magnet_link r = Inr (JStr (''magnet:?xt=urn:btih:'' @ lower h))"
    using assms by (intro create_magnet_link_None) simp_all
  have b: "create_magnet_link ((''Link'', JStr url') # r)
             = Inr (JStr (''magnet:?xt=urn:btih:'' @ lower h))" for url'
    using assms by (intro create_magnet_link_None) (simp_all add: py_get_Cons)
  show ?thesis using a b by (simp add: normalized_link_eq)
qed

theorem magnet_synthesized_witness:
  "py_get [(''Link'', JStr ''http://t.example/1.torrent''), (''InfoHash'', JStr ''ABCDEF0123'')] ''MagnetUri'' = JNull
   \<and> normalized_link (JObj [(''Link'', JStr ''http://t.example/1.torrent''), (''InfoHash'', JStr ''ABCDEF0123'')])
       = Some (JStr ''magnet:?xt=urn:btih:abcdef0123'')"
  using magnet_synthesized_when_magnet_uri_is_none
    [of "[(''Link'', JStr ''http://t.example/1.torrent''), (''InfoHash'', JStr ''ABCDEF0123'')]"
        "''http://t.example/1.torrent''" "''ABCDEF0123''"]
  by (simp add: py_get_def lower_def lower_char_def upper_letters_def lower_letters_def)

text \<open>
  The test is \<open>magneturi is not None\<close>: a magnet URI that is the empty string is returned
  as it is, and no link is synthesized.
\<close>

theorem empty_magnet_uri_counterexample:
  "normalized_link (JObj [(''MagnetUri'', JStr ''''), (''Link'', JStr ''http://t.example/1.torrent''),
                          (''InfoHash'', JStr ''ABCDEF0123'')]) = Some (JStr '''')
   \<and> normalized_link (JObj [(''MagnetUri'', JStr ''''), (''Link'', JStr ''http://t.example/1.torrent''),
                          (''InfoHash'', JStr ''ABCDEF0123'')])
       \<noteq> Some (JStr (''magnet:?xt=urn:btih:'' @ lower ''ABCDEF0123''))"
  by (simp add: normalized_link_def trimmed_result_def create_magnet_link_def py_get_def)

lemma create_magnet_link_succeeds:
  assumes "py_get r ''MagnetUri'' \<noteq> JNull \<or> py_get r ''Link'' = JNull
           \<or> py_get r ''InfoHash'' = JNull \<or> (\<exists>h. py_get r ''InfoHash'' = JStr h)"
  shows "\<exists>link. create_magnet_link r = Inr link"
  using assms by (auto simp: create_magnet_link_def Let_def split: json.splits)

text \<open>
  Claim C7, as the code has it. For every raw result (a dict) the normalizer returns a
  record with exactly the keys \<open>Title\<close>, \<open>Link\<close>, \<open>Size\<close>, \<open>Seeders\<close>, \<open>Leechers\<close>,
  \<open>InfoHash\<close>, \<open>IndexerId\<close>, \<open>year\<close>, \<open>Details\<close>, in this order. \<open>Link\<close> is the resolved
  link; \<open>Title\<close>, \<open>Size\<close>, \<open>Seeders\<close>, \<open>Leechers\<close>, \<open>InfoHash\<close> and \<open>Details\<close> are
  the input fields of the same name, \<open>IndexerId\<close> is the input field \<open>Tracker\<close> and \<open>year\<close>
  the input field \<open>Year\<close>; a field absent from the input is \<open>None\<close> in the record, never
  left out. Normalization succeeds whenever a magnet URI is present, or the torrent URL
  or the info-hash is absent or \<open>None\<close>, or the info-hash is a string.
\<close>

theorem trimmed_result_shape:
  assumes "py_get r ''MagnetUri'' \<noteq> JNull \<or> py_get r ''Link'' = JNull
           \<or> py_get r ''InfoHash'' = JNull \<or> (\<exists>h. py_get r ''InfoHash'' = JStr h)"
  shows "\<exists>out link. trimmed_result (JObj r) = Inr (JObj out)
           \<and> map fst out = [''Title'', ''Link'', ''Size'', ''Seeders'', ''Leechers'',
                             ''InfoHash'', ''IndexerId'', ''year'', ''Details'']
           \<and> create_magnet_link r = Inr link \<and> map_of out ''Link'' = Some link
           \<and> (\<forall>(k, f) \<in> set [(''Title'', ''Title''), (''Size'', ''Size''),
                               (''Seeders'', ''Seeders''), (''Leechers'', ''Leechers''),
                               (''InfoHash'', ''InfoHash''), (''IndexerId'', ''Tracker''),
                               (''year'', ''Year''), (''Details'', ''Details'')].
                 map_of out k = Some (py_get r f)
                 \<and> (map_of r f = None \<longrightarrow> map_of out k = Some JNull))"
proof -
  from create_magnet_link_succeeds [OF assms]
  obtain link where l: "create_magnet_link r = Inr link" by blast
  have n: "map_of r f = None \<Longrightarrow> py_get r f = JNull" for f
    by (simp add: py_get_def)
  show ?thesis
    using l n by (simp add: trimmed_result_def)
qed

theorem trimmed_result_shape_witness:
  "py_get [(''Title'', JStr ''Ubuntu''), (''Tracker'', JStr ''yts''), (''Year'', JInt 2024)] ''Link'' = JNull
   \<and> trimmed_result (JObj [(''Title'', JStr ''Ubuntu''), (''Tracker'', JStr ''yts''), (''Year'', JInt 2024)])
     = Inr (JObj [(''Title'', JStr ''Ubuntu''), (''Link'', JNull), (''Size'', JNull),
                  (''Seeders'', JNull), (''Leechers'', JNull), (''InfoHash'', JNull),
                  (''IndexerId'', JStr ''yts''), (''year'', JInt 2024), (''Details'', JNull)])"
  using trimmed_result_shape
    [of "[(''Title'', JStr ''Ubuntu''), (''Tracker'', JStr ''yts''), (''Year'', JInt 2024)]"]
  by (simp add: py_get_def trimmed_result_def create_magnet_link_def)

text \<open>
  The record has a key \<open>year\<close> and none called \<open>Year\<close>; \<open>IndexerId\<close> is read from
  \<open>Tracker\<close>, not from a field of its own name; and an info-hash that is not a string,
  next to a torrent URL and no magnet URI, makes \<open>infohash.lower()\<close> raise.
\<close>

theorem trimmed_result_counterexample:
  "(case trimmed_result (JObj [(''Tracker'', JStr ''yts''), (''IndexerId'', JStr ''other''),
                               (''Year'', JInt 2024)]) of
      Inr (JObj out) \<Rightarrow>
        ''Year'' \<notin> set (map fst out) \<and> ''year'' \<in> set (map fst out)
        \<and> map_of out ''IndexerId'' = Some (JStr ''yts'')
        \<and> map_of out ''IndexerId'' \<noteq> Some (py_get [(''Tracker'', JStr ''yts''),
             (''IndexerId'', JStr ''other''), (''Year'', JInt 2024)] ''IndexerId'')
    | _ \<Rightarrow> False)
   \<and> trimmed_result (JObj [(''Link'', JStr ''http://t.example/1.torrent''), (''InfoHash'', JInt 5)])
       = Inl (AttributeError ''int'' ''lower'')"
  by (simp add: trimmed_result_def create_magnet_link_def py_get_def type_name_def)


section \<open>The executor\<close>

lemma trimmed_results_eq:
  "trimmed_results rs = Inr ns \<longleftrightarrow>
   map (\<lambda>r. map_sum (\<lambda>e. e) jsonable_encoder (trimmed_result r)) rs = map Inr ns"
proof (induction rs arbitrary: ns)
  case Nil
  then show ?case by auto
next
  case (Cons r rs)
  show ?case
  proof (cases "trimmed_result r")
    case (Inl e)
    then show ?thesis by (cases ns) auto
  next
    case (Inr t)
    show ?thesis
    proof (cases "trimmed_results rs")
      case (Inl e)
      with Inr Cons.IH show ?thesis by (cases ns) auto
    next
      case r2: (Inr ts)
      with Inr Cons.IH [of ts] Cons.IH show ?thesis
        by (cases ns) auto
    qed
  qed
qed

lemma trimmed_results_all:
  "map trimmed_result rs = map Inr ts \<Longrightarrow> trimmed_results rs = Inr (map jsonable_encoder ts)"
  by (induction rs arbitrary: ts) auto

lemma trimmed_results_first_failure:
  assumes "\<forall>x\<in>set pre. \<exists>t. trimmed_result x = Inr t" and "trimmed_result r = Inl e"
  shows "trimmed_results (pre @ r # post) = Inl e"
  using assms(1)
proof (induction pre)
  case Nil
  show ?case using assms(2) by simp
next
  case (Cons x pre)
  then obtain t where "trimmed_result x = Inr t" by auto
  moreover from Cons have "trimmed_results (pre @ r # post) = Inl e" by simp
  ultimately show ?case by simp
qed

lemma trimmed_results_normalized:
  "trimmed_results rs = Inr ns \<Longrightarrow>
   \<exists>ts. ns = map jsonable_encoder ts \<and> (\<forall>t\<in>set ts. \<exists>r. trimmed_result r = Inr t)"
proof (induction rs arbitrary: ns)
  case Nil
  then have "ns = map jsonable_encoder []" by simp
  then show ?case by (metis empty_iff list.set(1))
next
  case (Cons r rs)
  from Cons.prems obtain t ns' where t: "trimmed_result r = Inr t"
    and r: "trimmed_results rs = Inr ns'" and n: "ns = jsonable_encoder t # ns'"
    by (auto split: sum.splits)
  from Cons.IH [OF r] obtain ts where ts: "ns' = map jsonable_encoder ts"
    "\<forall>t\<in>set ts. \<exists>r. trimmed_result r = Inr t" by blast
  have "ns = map jsonable_encoder (t # ts)" using n ts(1) by simp
  moreover have "\<forall>t'\<in>set (t # ts). \<exists>r. trimmed_result r = Inr t'" using t ts(2) by auto
  ultimately show ?case by blast
qed

lemma fetch_attempt_200:
  assumes "results_reply cfg nt i q = Responded 200 reason (Inr (JObj d))"
    and "py_get_default d ''Results'' (JList []) = JList rs"
  shows "fetch_attempt cfg nt i q = trimmed_results rs"
  using assms by (simp add: fetch_attempt_def py_len_def py_iter_def)

lemma fetch_raises:
  "fetch_attempt cfg nt i q = Inl e \<Longrightarrow>
   fetch_jackett_results_for_indexer cfg nt i q =
     [error_record (''Exception fetching from indexer '' @ py_str i @ '': '' @ str_exn e)]"
  by (simp add: fetch_jackett_results_for_indexer_def)

lemma fetch_succeeds:
  assumes "succeeds_with (results_reply cfg nt i q) ns"
  shows "fetch_jackett_results_for_indexer cfg nt i q = ns"
proof -
  from assms obtain reason d rs where
    r: "results_reply cfg nt i q = Responded 200 reason (Inr (JObj d))"
    and g: "py_get_default d ''Results'' (JList []) = JList rs"
    and m: "map (\<lambda>r. map_sum (\<lambda>e. e) jsonable_encoder (trimmed_result r)) rs = map Inr ns"
    by (auto simp: succeeds_with_def split: http_result.splits sum.splits json.splits)
  from m have "trimmed_results rs = Inr ns" by (simp add: trimmed_results_eq)
  with fetch_attempt_200 [OF r g] show ?thesis
    by (simp add: fetch_jackett_results_for_indexer_def)
qed

lemma fetch_batch_or_error_record:
  "(\<exists>ts. fetch_jackett_results_for_indexer cfg nt i q = map jsonable_encoder ts
         \<and> (\<forall>t\<in>set ts. \<exists>r. trimmed_result r = Inr t))
   \<or> (\<exists>kind detail. kind \<in> {''Error'', ''Exception''}
         \<and> fetch_jackett_results_for_indexer cfg nt i q =
             [error_record (kind @ '' fetching from indexer '' @ py_str i @ '': '' @ detail)])"
proof (cases "fetch_attempt cfg nt i q")
  case (Inl e)
  then have "fetch_jackett_results_for_indexer cfg nt i q =
     [error_record (''Exception'' @ '' fetching from indexer '' @ py_str i @ '': '' @ str_exn e)]"
    by (simp add: fetch_jackett_results_for_indexer_def)
  then show ?thesis by blast
next
  case (Inr batch)
  then have b: "fetch_jackett_results_for_indexer cfg nt i q = batch"
    by (simp add: fetch_jackett_results_for_indexer_def)
  from Inr consider
      (err) status where "batch = [error_record (''Error'' @ '' fetching from indexer ''
                                     @ py_str i @ '': '' @ show_int status)]"
    | (ok) rs where "trimmed_results rs = Inr batch"
    by (auto simp: fetch_attempt_def Let_def
        split: http_result.splits if_splits sum.splits json.splits)
  then show ?thesis
  proof cases
    case err
    with b show ?thesis by blast
  next
    case ok
    from trimmed_results_normalized [OF ok] b show ?thesis by blast
  qed
qed

text \<open>
  Claim C2, as the code has it. The executor returns a batch whatever the backend does,
  and the batch is either normalized (and encoded) results or exactly one error record
  naming the backend id. On a 200 whose body is a dict it returns the empty batch when
  \<open>Results\<close> is absent and, when \<open>Results\<close> is a list whose elements all normalize, their
  normalized records. Everything that raises inside the \<open>try\<close> gives one error record
  with the backend id and the text of the exception: the request itself, the decoding of
  the body of a 200, a body that is not a dict, a \<open>Results\<close> that is \<open>None\<close>, a boolean
  or a number, and the first element of \<open>Results\<close> that does not normalize, in which case
  the results normalized before it are dropped. On any other status it returns one error
  record with the backend id and the status.
\<close>

theorem executor_returns_batch_or_error_record:
  "(\<forall>reason d. results_reply cfg nt i q = Responded 200 reason (Inr (JObj d))
         \<and> map_of d ''Results'' = None
       \<longrightarrow> fetch_jackett_results_for_indexer cfg nt i q = [])
   \<and> (\<forall>reason d rs ts. results_reply cfg nt i q = Responded 200 reason (Inr (JObj d))
         \<and> map_of d ''Results'' = Some (JList rs)
         \<and> map trimmed_result rs = map Inr ts
       \<longrightarrow> fetch_jackett_results_for_indexer cfg nt i q = map jsonable_encoder ts)
   \<and> (\<forall>reason d pre r post e.
         results_reply cfg nt i q = Responded 200 reason (Inr (JObj d))
         \<and> map_of d ''Results'' = Some (JList (pre @ r # post))
         \<and> (\<forall>x\<in>set pre. \<exists>t. trimmed_result x = Inr t)
         \<and> trimmed_result r = Inl e
       \<longrightarrow> fetch_jackett_results_for_indexer cfg nt i q =
             [error_record (''Exception fetching from indexer '' @ py_str i @ '': ''
                            @ str_exn e)])
   \<and> (\<forall>reason d v. results_reply cfg nt i q = Responded 200 reason (Inr (JObj d))
         \<and> map_of d ''Results'' = Some v
         \<and> (v = JNull \<or> (\<exists>b. v = JBool b) \<or> (\<exists>n. v = JInt n))
       \<longrightarrow> fetch_jackett_results_for_indexer cfg nt i q =
             [error_record (''Exception fetching from indexer '' @ py_str i @ '': ''
                @ (''object of type '' @ [CHR 0x27] @ type_name v @ [CHR 0x27]
                   @ '' has no len()''))])
   \<and> (\<forall>reason data. results_reply cfg nt i q = Responded 200 reason (Inr data)
         \<and> (\<forall>d. data \<noteq> JObj d)
       \<longrightarrow> fetch_jackett_results_for_indexer cfg nt i q =
             [error_record (''Exception fetching from indexer '' @ py_str i @ '': ''
                            @ str_exn (AttributeError (type_name data) ''get''))])
   \<and> (\<forall>e. (results_reply cfg nt i q = Raised e
            \<or> (\<exists>reason. results_reply cfg nt i q = Responded 200 reason (Inl e)))
       \<longrightarrow> fetch_jackett_results_for_indexer cfg nt i q =
             [error_record (''Exception fetching from indexer '' @ py_str i @ '': ''
                            @ str_exn e)])
   \<and> (\<forall>status reason body. results_reply cfg nt i q = Responded status reason body
         \<and> status \<noteq> 200
       \<longrightarrow> fetch_jackett_results_for_indexer cfg nt i q =
             [error_record (''Error fetching from indexer '' @ py_str i @ '': ''
                            @ show_int status)])
   \<and> ((\<exists>ts. fetch_jackett_results_for_indexer cfg nt i q = map jsonable_encoder ts
            \<and> (\<forall>t\<in>set ts. \<exists>r. trimmed_result r = Inr t))
       \<or> (\<exists>kind detail. kind \<in> {''Error'', ''Exception''}
            \<and> fetch_jackett_results_for_indexer cfg nt i q =
                [error_record (kind @ '' fetching from indexer '' @ py_str i @ '': ''
                               @ detail)]))"
proof (intro conjI allI impI)
  fix reason d
  assume h: "results_reply cfg nt i q = Responded 200 reason (Inr (JObj d))
          \<and> map_of d ''Results'' = None"
  then have "fetch_attempt cfg nt i q = trimmed_results []"
    by (intro fetch_attempt_200 [of _ _ _ _ reason d]) (simp_all add: py_get_default_def)
  then show "fetch_jackett_results_for_indexer cfg nt i q = []"
    by (simp add: fetch_jackett_results_for_indexer_def)
next
  fix reason d rs ts
  assume h: "results_reply cfg nt i q = Responded 200 reason (Inr (JObj d))
         \<and> map_of d ''Results'' = Some (JList rs)
         \<and> map trimmed_result rs = map Inr ts"
  then have "fetch_attempt cfg nt i q = trimmed_results rs"
    by (intro fetch_attempt_200 [of _ _ _ _ reason d]) (simp_all add: py_get_default_def)
  with h show "fetch_jackett_results_for_indexer cfg nt i q = map jsonable_encoder ts"
    by (simp add: fetch_jackett_results_for_indexer_def trimmed_results_all)
next
  fix reason d pre r post e
  assume h: "results_reply cfg nt i q = Responded 200 reason (Inr (JObj d))
         \<and> map_of d ''Results'' = Some (JList (pre @ r # post))
         \<and> (\<forall>x\<in>set pre. \<exists>t. trimmed_result x = Inr t)
         \<and> trimmed_result r = Inl e"
  then have "fetch_attempt cfg nt i q = trimmed_results (pre @ r # post)"
    by (intro fetch_attempt_200 [of _ _ _ _ reason d]) (simp_all add: py_get_default_def)
  moreover from h have "trimmed_results (pre @ r # post) = Inl e"
    by (intro trimmed_results_first_failure) simp_all
  ultimately show "fetch_jackett_results_for_indexer cfg nt i q =
      [error_record (''Exception fetching from indexer '' @ py_str i @ '': '' @ str_exn e)]"
    by (simp add: fetch_raises)
next
  fix reason d v
  assume h: "results_reply cfg nt i q = Responded 200 reason (Inr (JObj d))
         \<and> map_of d ''Results'' = Some v
         \<and> (v = JNull \<or> (\<exists>b. v = JBool b) \<or> (\<exists>n. v = JInt n))"
  then have "fetch_attempt cfg nt i q =
      Inl (TypeError (''object of type '' @ [CHR 0x27] @ type_name v @ [CHR 0x27]
                      @ '' has no len()''))"
    by (auto simp: fetch_attempt_def py_get_default_def py_len_def)
  then show "fetch_jackett_results_for_indexer cfg nt i q =
      [error_record (''Exception fetching from indexer '' @ py_str i @ '': ''
         @ (''object of type '' @ [CHR 0x27] @ type_name v @ [CHR 0x27] @ '' has no len()''))]"
    by (simp add: fetch_jackett_results_for_indexer_def str_exn_def)
next
  fix reason data
  assume h: "results_reply cfg nt i q = Responded 200 reason (Inr data)
         \<and> (\<forall>d. data \<noteq> JObj d)"
  then have "fetch_attempt cfg nt i q = Inl (AttributeError (type_name data) ''get'')"
    by (cases data) (simp_all add: fetch_attempt_def)
  then show "fetch_jackett_results_for_indexer cfg nt i q =
      [error_record (''Exception fetching from indexer '' @ py_str i @ '': ''
                     @ str_exn (AttributeError (type_name data) ''get''))]"
    by (rule fetch_raises)
next
  fix e
  assume "results_reply cfg nt i q = Raised e
          \<or> (\<exists>reason. results_reply cfg nt i q = Responded 200 reason (Inl e))"
  then have "fetch_attempt cfg nt i q = Inl e"
    by (auto simp: fetch_attempt_def)
  then show "fetch_jackett_results_for_indexer cfg nt i q =
      [error_record (''Exception fetching from indexer '' @ py_str i @ '': '' @ str_exn e)]"
    by (rule fetch_raises)
next
  fix status :: int and reason body
  assume "results_reply cfg nt i q = Responded status reason body \<and> status \<noteq> 200"
  then show "fetch_jackett_results_for_indexer cfg nt i q =
      [error_record (''Error fetching from indexer '' @ py_str i @ '': '' @ show_int status)]"
    by (simp add: fetch_jackett_results_for_indexer_def fetch_attempt_def)
next
  show "(\<exists>ts. fetch_jackett_results_for_indexer cfg nt i q = map jsonable_encoder ts
            \<and> (\<forall>t\<in>set ts. \<exists>r. trimmed_result r = Inr t))
       \<or> (\<exists>kind detail. kind \<in> {''Error'', ''Exception''}
            \<and> fetch_jackett_results_for_indexer cfg nt i q =
                [error_record (kind @ '' fetching from indexer '' @ py_str i @ '': ''
                               @ detail)])"
    by (rule fetch_batch_or_error_record)
qed

text \<open>The replies of the example backends.\<close>

lemma example_reply_yts:
  "results_reply example_config example_net (JStr ''yts'') q =
     Responded 200 ''OK'' (Inr (JObj [(''Results'', JList
          [JObj [(''Title'', JStr ''Ubuntu''), (''MagnetUri'', JStr ''magnet:?xt=urn:btih:aa''),
                 (''Tracker'', JStr ''yts'')]])]))"
  by (simp add: results_reply_def get_search_results_url_def example_config_def
      example_net_def py_str_def)

lemma example_reply_eztv:
  "results_reply example_config example_net (JStr ''eztv'') q =
     Responded 503 ''Service Unavailable'' (Inl (JSONDecodeError ''Expecting value''))"
  by (simp add: results_reply_def get_search_results_url_def example_config_def
      example_net_def py_str_def)

lemma example_reply_nyaa:
  "results_reply example_config example_net (JStr ''nyaa'') q =
     Responded 200 ''OK'' (Inr (JObj [(''Results'', JList
          [JObj [(''Title'', JStr ''Debian''), (''Link'', JStr ''http://nyaa.example/1.torrent''),
                 (''InfoHash'', JStr ''AB12''), (''Tracker'', JStr ''nyaa'')]])]))"
  by (simp add: results_reply_def get_search_results_url_def example_config_def
      example_net_def py_str_def)

lemma example_reply_rarbg:
  "results_reply example_config example_net (JStr ''rarbg'') q =
     Raised (ClientError ''Cannot connect to host'')"
  by (simp add: results_reply_def get_search_results_url_def example_config_def
      example_net_def py_str_def)

lemma example_yts_normalizes:
  "map trimmed_result
     [JObj [(''Title'', JStr ''Ubuntu''), (''MagnetUri'', JStr ''magnet:?xt=urn:btih:aa''),
            (''Tracker'', JStr ''yts'')]] = map Inr yts_results"
  by (simp add: trimmed_result_def create_magnet_link_def py_get_def yts_results_def)

lemma example_yts_encoded: "map jsonable_encoder yts_results = yts_results"
  by (simp add: yts_results_def starts_with_sa_def)

lemma example_yts_succeeds:
  "succeeds_with (results_reply example_config example_net (JStr ''yts'') q) yts_results"
  by (simp add: example_reply_yts succeeds_with_def py_get_default_def trimmed_result_def
      create_magnet_link_def py_get_def yts_results_def starts_with_sa_def)

lemma example_nyaa_succeeds:
  "succeeds_with (results_reply example_config example_net (JStr ''nyaa'') q) nyaa_results"
  by (simp add: example_reply_nyaa succeeds_with_def py_get_default_def trimmed_result_def
      create_magnet_link_def py_get_def nyaa_results_def lower_def lower_char_def
      upper_letters_def lower_letters_def starts_with_sa_def)

lemma mixed_reply_yts:
  "results_reply example_config mixed_net (JStr ''yts'') q =
     Responded 200 ''OK'' (Inr (JObj [(''Results'', JList
          ([JObj [(''Title'', JStr ''Ubuntu''), (''MagnetUri'', JStr ''magnet:?xt=urn:btih:aa''),
                  (''Tracker'', JStr ''yts'')]] @
           JObj [(''Title'', JStr ''Debian''), (''Link'', JStr ''http://yts.example/2.torrent''),
                 (''InfoHash'', JInt 5), (''Tracker'', JStr ''yts'')] # []))]))"
  by (simp add: results_reply_def get_search_results_url_def example_config_def
      mixed_net_def py_str_def)

lemma show_int_503: "show_int 503 = ''503''"
  by (simp add: show_int_def show_nat.simps)

theorem executor_witness:
  "fetch_jackett_results_for_indexer example_config example_net (JStr ''yts'') ''ubuntu''
       = yts_results
   \<and> fetch_jackett_results_for_indexer example_config example_net (JStr ''eztv'') ''ubuntu''
       = [JObj [(''error'', JStr ''Error fetching from indexer eztv: 503'')]]
   \<and> fetch_jackett_results_for_indexer example_config example_net (JStr ''rarbg'') ''ubuntu''
       = [JObj [(''error'', JStr ''Exception fetching from indexer rarbg: Cannot connect to host'')]]
   \<and> fetch_jackett_results_for_indexer example_config mixed_net (JStr ''yts'') ''ubuntu''
       = [error_record (''Exception fetching from indexer yts: ''
                        @ str_exn (AttributeError ''int'' ''lower''))]"
proof -
  note mixed = executor_returns_batch_or_error_record
      [of example_config mixed_net "JStr ''yts''" "''ubuntu''"]
  have g: "\<forall>x\<in>set [JObj [(''Title'', JStr ''Ubuntu''),
                            (''MagnetUri'', JStr ''magnet:?xt=urn:btih:aa''),
                            (''Tracker'', JStr ''yts'')]]. \<exists>t. trimmed_result x = Inr t"
    by (simp add: trimmed_result_def create_magnet_link_def py_get_def)
  have b: "trimmed_result (JObj [(''Title'', JStr ''Debian''),
              (''Link'', JStr ''http://yts.example/2.torrent''),
              (''InfoHash'', JInt 5), (''Tracker'', JStr ''yts'')])
           = Inl (AttributeError ''int'' ''lower'')"
    by (simp add: trimmed_result_def create_magnet_link_def py_get_def type_name_def)
  have mr: "map_of [(''Results'', JList
          ([JObj [(''Title'', JStr ''Ubuntu''), (''MagnetUri'', JStr ''magnet:?xt=urn:btih:aa''),
                  (''Tracker'', JStr ''yts'')]] @
           JObj [(''Title'', JStr ''Debian''), (''Link'', JStr ''http://yts.example/2.torrent''),
                 (''InfoHash'', JInt 5), (''Tracker'', JStr ''yts'')] # []))] ''Results''
        = Some (JList
          ([JObj [(''Title'', JStr ''Ubuntu''), (''MagnetUri'', JStr ''magnet:?xt=urn:btih:aa''),
                  (''Tracker'', JStr ''yts'')]] @
           JObj [(''Title'', JStr ''Debian''), (''Link'', JStr ''http://yts.example/2.torrent''),
                 (''InfoHash'', JInt 5), (''Tracker'', JStr ''yts'')] # []))"
    by simp
  from mixed [THEN conjunct2, THEN conjunct2, THEN conjunct1,
      THEN spec, THEN spec, THEN spec, THEN spec, THEN spec, THEN spec, THEN mp,
      OF conjI [OF mixed_reply_yts conjI [OF mr conjI [OF g b]]]]
  have 4: "fetch_jackett_results_for_indexer example_config mixed_net (JStr ''yts'') ''ubuntu''
       = [error_record (''Exception fetching from indexer yts: ''
                        @ str_exn (AttributeError ''int'' ''lower''))]"
    by (simp add: py_str_def)
  note yts = executor_returns_batch_or_error_record
      [of example_config example_net "JStr ''yts''" "''ubuntu''"]
  note eztv = executor_returns_batch_or_error_record
      [of example_config example_net "JStr ''eztv''" "''ubuntu''"]
  note rarbg = executor_returns_batch_or_error_record
      [of example_config example_net "JStr ''rarbg''" "''ubuntu''"]
  have m: "map_of [(''Results'', JList
          [JObj [(''Title'', JStr ''Ubuntu''), (''MagnetUri'', JStr ''magnet:?xt=urn:btih:aa''),
                 (''Tracker'', JStr ''yts'')]])] ''Results'' = Some (JList
          [JObj [(''Title'', JStr ''Ubuntu''), (''MagnetUri'', JStr ''magnet:?xt=urn:btih:aa''),
                 (''Tracker'', JStr ''yts'')]])"
    by simp
  from yts [THEN conjunct2, THEN conjunct1, THEN spec, THEN spec, THEN spec, THEN spec,
      THEN mp, OF conjI [OF example_reply_yts conjI [OF m example_yts_normalizes]]]
  have 1: "fetch_jackett_results_for_indexer example_config example_net (JStr ''yts'') ''ubuntu''
       = yts_results"
    by (simp add: example_yts_encoded)
  have "results_reply example_config example_net (JStr ''eztv'') ''ubuntu'' =
          Responded 503 ''Service Unavailable'' (Inl (JSONDecodeError ''Expecting value''))
        \<and> (503::int) \<noteq> 200"
    by (simp add: example_reply_eztv)
  with eztv have 2:
    "fetch_jackett_results_for_indexer example_config example_net (JStr ''eztv'') ''ubuntu''
       = [JObj [(''error'', JStr ''Error fetching from indexer eztv: 503'')]]"
    by (simp add: error_record_def py_str_def show_int_503)
  from rarbg example_reply_rarbg [of "''ubuntu''"] have 3:
    "fetch_jackett_results_for_indexer example_config example_net (JStr ''rarbg'') ''ubuntu''
       = [JObj [(''error'', JStr ''Exception fetching from indexer rarbg: Cannot connect to host'')]]"
    by (simp add: error_record_def py_str_def str_exn_def)
  from 1 2 3 4 show ?thesis by blast
qed

text \<open>
  A 200 is not enough for the results to be returned. \<open>yts\<close> answers 200 with two
  results; the first normalizes, the second has the number 5 for its info-hash, and
  \<open>infohash.lower()\<close> raises on it inside the \<open>try\<close>: the batch is one error record and
  the normalized first result is not in it.
\<close>

theorem one_bad_result_counterexample:
  "results_reply example_config mixed_net (JStr ''yts'') ''ubuntu'' =
     Responded 200 ''OK'' (Inr (JObj [(''Results'', JList
          [JObj [(''Title'', JStr ''Ubuntu''), (''MagnetUri'', JStr ''magnet:?xt=urn:btih:aa''),
                 (''Tracker'', JStr ''yts'')],
           JObj [(''Title'', JStr ''Debian''), (''Link'', JStr ''http://yts.example/2.torrent''),
                 (''InfoHash'', JInt 5), (''Tracker'', JStr ''yts'')]])]))
   \<and> map trimmed_result
         [JObj [(''Title'', JStr ''Ubuntu''), (''MagnetUri'', JStr ''magnet:?xt=urn:btih:aa''),
                (''Tracker'', JStr ''yts'')]] = map Inr yts_results
   \<and> fetch_jackett_results_for_indexer example_config mixed_net (JStr ''yts'') ''ubuntu'' =
       [error_record (''Exception fetching from indexer yts: ''
                      @ str_exn (AttributeError ''int'' ''lower''))]
   \<and> hd yts_results
       \<notin> set (fetch_jackett_results_for_indexer example_config mixed_net (JStr ''yts'') ''ubuntu'')"
proof -
  have r: "results_reply example_config mixed_net (JStr ''yts'') ''ubuntu'' =
     Responded 200 ''OK'' (Inr (JObj [(''Results'', JList
          [JObj [(''Title'', JStr ''Ubuntu''), (''MagnetUri'', JStr ''magnet:?xt=urn:btih:aa''),
                 (''Tracker'', JStr ''yts'')],
           JObj [(''Title'', JStr ''Debian''), (''Link'', JStr ''http://yts.example/2.torrent''),
                 (''InfoHash'', JInt 5), (''Tracker'', JStr ''yts'')]])]))"
    by (simp add: results_reply_def get_search_results_url_def example_config_def
        mixed_net_def py_str_def)
  have f: "fetch_jackett_results_for_indexer example_config mixed_net (JStr ''yts'') ''ubuntu'' =
       [error_record (''Exception fetching from indexer yts: ''
                      @ str_exn (AttributeError ''int'' ''lower''))]"
    by (simp add: fetch_jackett_results_for_indexer_def fetch_attempt_def r py_get_default_def
        py_len_def py_iter_def trimmed_result_def create_magnet_link_def py_get_def
        type_name_def py_str_def)
  have n: "hd yts_results \<noteq> error_record (''Exception fetching from indexer yts: ''
                      @ str_exn (AttributeError ''int'' ''lower''))"
    by (simp add: yts_results_def error_record_def)
  show ?thesis
    using r f n example_yts_normalizes by simp
qed


section \<open>The fan-out\<close>

lemma as_completed_mset:
  assumes "completes order tasks"
  shows "mset (concat (as_completed order tasks)) = mset (concat tasks)"
proof -
  have "mset (concat (as_completed order tasks))
          = (\<Sum>i\<in>#mset order. mset (tasks ! i))"
    by (simp add: as_completed_def mset_concat comp_def flip: sum_mset_sum_list)
  also have "\<dots> = (\<Sum>i\<in>#mset [0..<length tasks]. mset (tasks ! i))"
    using assms by (simp add: completes_def)
  also have "\<dots> = mset (concat (map (\<lambda>i. tasks ! i) [0..<length tasks]))"
    by (simp add: mset_concat comp_def flip: sum_mset_sum_list)
  finally show ?thesis by (simp add: map_nth)
qed

lemma encoded_result_not_error:
  "trimmed_result r = Inr t \<Longrightarrow> \<not> is_error_record (jsonable_encoder t)"
  by (auto simp: trimmed_result_def is_error_record_def starts_with_sa_def
      split: json.splits sum.splits)

lemma succeeds_with_not_error:
  assumes "succeeds_with reply ns" and "n \<in> set ns"
  shows "\<not> is_error_record n"
proof -
  from assms(1) obtain rs where
    m: "map (\<lambda>r. map_sum (\<lambda>e. e) jsonable_encoder (trimmed_result r)) rs = map Inr ns"
    by (auto simp: succeeds_with_def split: http_result.splits sum.splits json.splits)
  from assms(2) have "Inr n \<in> set (map Inr ns)" by simp
  with m have "Inr n \<in> set (map (\<lambda>r. map_sum (\<lambda>e. e) jsonable_encoder (trimmed_result r)) rs)"
    by simp
  then obtain r where r: "map_sum (\<lambda>e. e) jsonable_encoder (trimmed_result r) = Inr n"
    by auto
  then obtain t where "trimmed_result r = Inr t" and "n = jsonable_encoder t"
    by (cases "trimmed_result r") auto
  then show ?thesis by (simp add: encoded_result_not_error)
qed

lemma fails_gives_error_record:
  assumes "fails (results_reply cfg nt i q)"
  shows "\<exists>kind detail. kind \<in> {''Error'', ''Exception''}
           \<and> fetch_jackett_results_for_indexer cfg nt i q =
               [error_record (kind @ '' fetching from indexer '' @ py_str i @ '': '' @ detail)]"
proof (cases "results_reply cfg nt i q")
  case (Raised e)
  then have "fetch_jackett_results_for_indexer cfg nt i q =
      [error_record (''Exception'' @ '' fetching from indexer '' @ py_str i @ '': '' @ str_exn e)]"
    by (simp add: fetch_jackett_results_for_indexer_def fetch_attempt_def)
  then show ?thesis by blast
next
  case (Responded status reason body)
  show ?thesis
  proof (cases "status = 200")
    case True
    with Responded assms obtain e where "body = Inl e"
      by (auto simp: fails_def split: sum.splits)
    with Responded True have "fetch_jackett_results_for_indexer cfg nt i q =
      [error_record (''Exception'' @ '' fetching from indexer '' @ py_str i @ '': '' @ str_exn e)]"
      by (simp add: fetch_jackett_results_for_indexer_def fetch_attempt_def)
    then show ?thesis by blast
  next
    case False
    with Responded have "fetch_jackett_results_for_indexer cfg nt i q =
      [error_record (''Error'' @ '' fetching from indexer '' @ py_str i @ '': '' @ show_int status)]"
      by (simp add: fetch_jackett_results_for_indexer_def fetch_attempt_def)
    then show ?thesis by blast
  qed
qed

lemma is_error_record_error_record: "is_error_record (error_record m)"
  by (simp add: is_error_record_def error_record_def)

lemma cached_state_fresh:
  "get_configured_indexers_from_file cfg example_world (cached_state registry)
     = (Inr registry, cached_state registry)"
  by (simp add: get_configured_indexers_from_file_def cached_state_def process_start_def
      example_world_def CACHE_DURATION_def load_cache_def)

lemma example_eztv_fails:
  "fails (results_reply example_config example_net (JStr ''eztv'') q)"
  by (simp add: example_reply_eztv fails_def)

text \<open>
  Claim C1. The registry lists the backends \<open>A\<close>, \<open>B\<close> and \<open>C\<close>, in any order; the calls of
  \<open>A\<close> and \<open>C\<close> succeed and the call of \<open>B\<close> fails (the request raises, or the status is
  not 200, or the body of a 200 cannot be decoded). Then, in whatever order the three
  calls complete, the search is not aborted: its stream holds every normalized result of
  \<open>A\<close> and of \<open>C\<close> and one error record, which names \<open>B\<close>; it has as many elements as \<open>A\<close>
  and \<open>C\<close> have results, plus one; and that error record is the only one in it.
\<close>

theorem fan_out_failure_isolation:
  assumes registry: "get_configured_indexers_from_file cfg w s = (Inr (JList reg), s')"
    and three: "mset reg = {#A, B, C#}"
    and order: "completes (completion w) reg"
    and A: "succeeds_with (results_reply cfg (net w) A query) nsA"
    and B: "fails (results_reply cfg (net w) B query)"
    and C: "succeeds_with (results_reply cfg (net w) C query) nsC"
  shows "\<exists>stream kind detail.
           search cfg w query s = (Inr stream, s')
         \<and> kind \<in> {''Error'', ''Exception''}
         \<and> mset stream = mset (map Data nsA) + mset (map Data nsC)
             + {#Data (error_record (kind @ '' fetching from indexer '' @ py_str B @ '': ''
                                     @ detail))#}
         \<and> length stream = length nsA + length nsC + 1
         \<and> filter is_error_event stream =
             [Data (error_record (kind @ '' fetching from indexer '' @ py_str B @ '': ''
                                  @ detail))]"
proof -
  from fails_gives_error_record [OF B] obtain kind detail
    where k: "kind \<in> {''Error'', ''Exception''}"
      and fB: "fetch_jackett_results_for_indexer cfg (net w) B query =
                 [error_record (kind @ '' fetching from indexer '' @ py_str B @ '': '' @ detail)]"
    by blast
  define eB where "eB = error_record (kind @ '' fetching from indexer '' @ py_str B @ '': '' @ detail)"
  define run where "run = (\<lambda>indexer_id. process_indexer cfg (net w) indexer_id query)"
  have fA: "run A = nsA"
    using fetch_succeeds [OF A] by (simp add: run_def process_indexer_def)
  have fC: "run C = nsC"
    using fetch_succeeds [OF C] by (simp add: run_def process_indexer_def)
  have fB': "run B = [eB]"
    using fB by (simp add: run_def process_indexer_def eB_def)
  define tasks where "tasks = map run reg"
  define stream where "stream = map Data (concat (as_completed (completion w) tasks))"
  have srch: "search cfg w query s = (Inr stream, s')"
    using registry
    by (simp add: search_def event_generator_def py_iter_def stream_def tasks_def run_def)
  have "completes (completion w) tasks"
    using order by (simp add: completes_def tasks_def)
  then have "mset (concat (as_completed (completion w) tasks)) = mset (concat tasks)"
    by (rule as_completed_mset)
  also have "\<dots> = (\<Sum>i\<in>#mset reg. mset (run i))"
    by (simp add: tasks_def mset_concat comp_def flip: sum_mset_sum_list)
  also have "\<dots> = mset nsA + mset nsC + {#eB#}"
    by (simp add: three fA fB' fC)
  finally have ms: "mset stream = mset (map Data nsA) + mset (map Data nsC) + {#Data eB#}"
    by (simp add: stream_def)
  from ms have "size (mset stream) = length nsA + length nsC + 1"
    by simp
  then have len: "length stream = length nsA + length nsC + 1"
    by simp
  have nA: "\<forall>n\<in>set nsA. \<not> is_error_record n"
    using succeeds_with_not_error [OF A] by blast
  have nC: "\<forall>n\<in>set nsC. \<not> is_error_record n"
    using succeeds_with_not_error [OF C] by blast
  have zA: "filter_mset is_error_event (mset (map Data nsA)) = {#}"
    using nA by (auto simp: is_error_event_def)
  have zC: "filter_mset is_error_event (mset (map Data nsC)) = {#}"
    using nC by (auto simp: is_error_event_def)
  have zB: "is_error_event (Data eB)"
    by (simp add: is_error_event_def eB_def is_error_record_error_record)
  have "mset (filter is_error_event stream) = {#Data eB#}"
    unfolding mset_filter ms filter_union_mset zA zC using zB by simp
  then have flt: "filter is_error_event stream = [Data eB]"
    by (simp only: mset_single_iff)
  show ?thesis
    using srch k ms len flt unfolding eB_def by blast
qed

theorem fan_out_failure_isolation_witness:
  "completes (completion example_world) [JStr ''eztv'', JStr ''yts'', JStr ''nyaa'']
   \<and> fails (results_reply example_config (net example_world) (JStr ''eztv'') ''linux'')
   \<and> (\<exists>stream kind detail.
         search example_config example_world ''linux''
           (cached_state (JList [JStr ''eztv'', JStr ''yts'', JStr ''nyaa''])) =
           (Inr stream, cached_state (JList [JStr ''eztv'', JStr ''yts'', JStr ''nyaa'']))
       \<and> mset stream = mset (map Data yts_results) + mset (map Data nyaa_results)
           + {#Data (error_record (kind @ '' fetching from indexer '' @ py_str (JStr ''eztv'')
                                   @ '': '' @ detail))#}
       \<and> length stream = length yts_results + length nyaa_results + 1)"
proof -
  have n: "net example_world = example_net"
    by (simp add: example_world_def)
  have c: "completes (completion example_world) [JStr ''eztv'', JStr ''yts'', JStr ''nyaa'']"
    by (simp add: completes_def example_world_def upt_rec)
  have t: "mset [JStr ''eztv'', JStr ''yts'', JStr ''nyaa'']
             = {#JStr ''yts'', JStr ''eztv'', JStr ''nyaa''#}"
    by simp
  have f: "fails (results_reply example_config (net example_world) (JStr ''eztv'') ''linux'')"
    by (simp add: n example_eztv_fails)
  have a: "succeeds_with (results_reply example_config (net example_world) (JStr ''yts'') ''linux'')
             yts_results"
    by (simp add: n example_yts_succeeds)
  have b: "succeeds_with (results_reply example_config (net example_world) (JStr ''nyaa'') ''linux'')
             nyaa_results"
    by (simp add: n example_nyaa_succeeds)
  from fan_out_failure_isolation [OF cached_state_fresh t c a f b]
  show ?thesis using c f by blast
qed

text \<open>
  Claim C8. When the registry the accessor returns holds no backend, the search creates
  no task and its stream ends at once, with no element and no error.
\<close>

theorem empty_registry_empty_stream:
  assumes "get_configured_indexers_from_file cfg w s = (Inr registry, s')"
    and "py_iter registry = Inr []"
    and "completes (completion w) ([] :: json list list)"
  shows "search cfg w query s = (Inr [], s')"
  using assms
  by (simp add: search_def event_generator_def completes_def as_completed_def)

theorem empty_registry_witness:
  "search example_config (example_world\<lparr>completion := []\<rparr>) ''linux'' (cached_state (JList []))
     = (Inr [], cached_state (JList []))"
proof -
  have a: "get_configured_indexers_from_file example_config (example_world\<lparr>completion := []\<rparr>)
             (cached_state (JList [])) = (Inr (JList []), cached_state (JList []))"
    by (simp add: get_configured_indexers_from_file_def cached_state_def process_start_def
      example_world_def CACHE_DURATION_def load_cache_def)
  have b: "py_iter (JList []) = Inr []" by (simp add: py_iter_def)
  have c: "completes (completion (example_world\<lparr>completion := []\<rparr>)) ([] :: json list list)"
    by (simp add: completes_def)
  from empty_registry_empty_stream [OF a b c] show ?thesis .
qed


section \<open>The registry\<close>

lemma configured_ids_skip:
  "map_of d ''configured'' = None \<Longrightarrow>
   configured_ids (xs @ JObj d # ys) = configured_ids (xs @ ys)"
proof (induction xs)
  case Nil
  then show ?case by (simp add: py_get_default_def truthy_def)
next
  case (Cons x xs)
  then show ?case by (simp split: json.splits option.splits)
qed

lemma configured_ids_keyerror:
  assumes "\<forall>x\<in>set xs. \<exists>dx. x = JObj dx"
    and "truthy (py_get_default d ''configured'' (JBool False))"
    and "map_of d ''id'' = None"
  shows "configured_ids (xs @ JObj d # ys) = Inl (KeyError ''id'')"
  using assms(1)
proof (induction xs)
  case Nil
  show ?case using assms(2,3) by simp
next
  case (Cons x xs)
  then obtain dx where x: "x = JObj dx" by auto
  from Cons have "configured_ids (xs @ JObj d # ys) = Inl (KeyError ''id'')" by simp
  then show ?case by (simp add: x split: option.splits)
qed

lemma configured_ids_value:
  assumes "\<forall>d\<in>set ds. truthy (py_get_default d ''configured'' (JBool False))
                       \<longrightarrow> map_of d ''id'' \<noteq> None"
  shows "configured_ids (map JObj ds) =
           Inr (map (\<lambda>d. py_get d ''id'')
                  (filter (\<lambda>d. truthy (py_get_default d ''configured'' (JBool False))) ds))"
  using assms
proof (induction ds)
  case Nil
  show ?case by simp
next
  case (Cons d ds)
  then have "configured_ids (map JObj ds) =
           Inr (map (\<lambda>d. py_get d ''id'')
                  (filter (\<lambda>d. truthy (py_get_default d ''configured'' (JBool False))) ds))"
    by simp
  with Cons.prems show ?case
    by (auto simp: py_get_def split: option.splits)
qed

lemma configured_ids_raises:
  "configured_ids xs = Inl e \<Longrightarrow> (\<exists>k. e = KeyError k) \<or> (\<exists>t a. e = AttributeError t a)"
  by (induction xs) (auto split: json.splits if_splits option.splits sum.splits)

lemma get_configured_indexers_result:
  assumes "indexers_reply cfg nt = Responded 200 reason (Inr (JList entries))"
  shows "get_configured_indexers cfg nt = (configured_ids entries, [Get (indexers_url cfg)])"
proof (cases "configured_ids entries")
  case (Inl e)
  from configured_ids_raises [OF Inl] Inl assms show ?thesis
    by (auto simp: get_configured_indexers_def indexers_attempt_def py_iter_def)
next
  case (Inr ids)
  with assms show ?thesis
    by (simp add: get_configured_indexers_def indexers_attempt_def py_iter_def)
qed

lemma broken_reply:
  "indexers_reply example_config broken_net = Responded 200 ''OK'' (Inr (JList
          ([JObj [(''id'', JStr ''yts''), (''configured'', JBool True)],
           JObj [(''id'', JStr ''rarbg'')]] @
           JObj [(''name'', JStr ''eztv''), (''configured'', JBool True)] # [])))"
  by (simp add: indexers_reply_def indexers_url_def example_config_def broken_net_def py_str_def)

lemma example_indexers_reply:
  "indexers_reply example_config example_net = Responded 200 ''OK'' (Inr (JList (map JObj
          [[(''id'', JStr ''yts''), (''configured'', JBool True)],
           [(''id'', JStr ''rarbg'')],
           [(''id'', JStr ''eztv''), (''configured'', JBool True)],
           [(''id'', JStr ''nyaa''), (''configured'', JBool True)]])))"
  by (simp add: indexers_reply_def indexers_url_def example_config_def example_net_def py_str_def)

text \<open>
  Claim C9. In the list the upstream returns, an entry without a \<open>configured\<close> field
  counts as not configured and is skipped without error: when every configured entry has
  an \<open>id\<close>, the refresh returns the \<open>id\<close> of the configured entries, in order, and
  nothing for the others; and with or without such an entry in the list the result is
  the same. An entry that is configured and has no \<open>id\<close> field (after entries that are all
  dicts) makes \<open>indexer["id"]\<close> raise \<open>KeyError\<close>, which no handler takes: it leaves
  \<open>get_configured_indexers\<close>, and with it the refresh of the accessor and of
  \<open>get_indexers\<close>, as it is, and the cache file and the timestamp stay as they were.
\<close>

theorem unconfigured_skipped_missing_id_raises:
  "(\<forall>d. map_of d ''configured'' = None
       \<longrightarrow> \<not> truthy (py_get_default d ''configured'' (JBool False)))
   \<and> (\<forall>reason ds.
         indexers_reply cfg (net w) = Responded 200 reason (Inr (JList (map JObj ds)))
         \<and> (\<forall>d\<in>set ds. truthy (py_get_default d ''configured'' (JBool False))
                          \<longrightarrow> map_of d ''id'' \<noteq> None)
       \<longrightarrow> fst (get_configured_indexers cfg (net w)) =
             Inr (map (\<lambda>d. py_get d ''id'')
                    (filter (\<lambda>d. truthy (py_get_default d ''configured'' (JBool False))) ds)))
   \<and> (\<forall>d xs ys. map_of d ''configured'' = None
       \<longrightarrow> configured_ids (xs @ JObj d # ys) = configured_ids (xs @ ys))
   \<and> (\<forall>reason d xs ys.
         indexers_reply cfg (net w) = Responded 200 reason (Inr (JList (xs @ JObj d # ys)))
         \<and> (\<forall>x\<in>set xs. \<exists>dx. x = JObj dx)
         \<and> truthy (py_get_default d ''configured'' (JBool False))
         \<and> map_of d ''id'' = None
       \<longrightarrow> fst (get_configured_indexers cfg (net w)) = Inl (KeyError ''id'')
           \<and> fst (refresh_registry cfg w s) = Inl (KeyError ''id'')
           \<and> CACHE_FILE (snd (refresh_registry cfg w s)) = CACHE_FILE s
           \<and> last_cache_update (snd (refresh_registry cfg w s)) = last_cache_update s
           \<and> fst (get_indexers cfg w s) = Inl (KeyError ''id''))"
proof (intro conjI allI impI)
  fix d :: "(string \<times> json) list"
  assume "map_of d ''configured'' = None"
  then show "\<not> truthy (py_get_default d ''configured'' (JBool False))"
    by (simp add: py_get_default_def truthy_def)
next
  fix reason ds
  assume h: "indexers_reply cfg (net w) = Responded 200 reason (Inr (JList (map JObj ds)))
         \<and> (\<forall>d\<in>set ds. truthy (py_get_default d ''configured'' (JBool False))
                          \<longrightarrow> map_of d ''id'' \<noteq> None)"
  then have "get_configured_indexers cfg (net w)
               = (configured_ids (map JObj ds), [Get (indexers_url cfg)])"
    by (intro get_configured_indexers_result [of _ _ reason]) simp
  moreover from h have "configured_ids (map JObj ds) =
           Inr (map (\<lambda>d. py_get d ''id'')
                  (filter (\<lambda>d. truthy (py_get_default d ''configured'' (JBool False))) ds))"
    by (intro configured_ids_value) simp
  ultimately show "fst (get_configured_indexers cfg (net w)) =
             Inr (map (\<lambda>d. py_get d ''id'')
                    (filter (\<lambda>d. truthy (py_get_default d ''configured'' (JBool False))) ds))"
    by simp
next
  fix d :: "(string \<times> json) list" and xs ys
  assume "map_of d ''configured'' = None"
  then show "configured_ids (xs @ JObj d # ys) = configured_ids (xs @ ys)"
    by (rule configured_ids_skip)
next
  fix reason d xs ys
  assume h: "indexers_reply cfg (net w) = Responded 200 reason (Inr (JList (xs @ JObj d # ys)))
         \<and> (\<forall>x\<in>set xs. \<exists>dx. x = JObj dx)
         \<and> truthy (py_get_default d ''configured'' (JBool False))
         \<and> map_of d ''id'' = None"
  then have "configured_ids (xs @ JObj d # ys) = Inl (KeyError ''id'')"
    by (intro configured_ids_keyerror) simp_all
  moreover from h have "get_configured_indexers cfg (net w)
      = (configured_ids (xs @ JObj d # ys), [Get (indexers_url cfg)])"
    by (intro get_configured_indexers_result [of _ _ reason]) simp
  ultimately have g: "get_configured_indexers cfg (net w)
      = (Inl (KeyError ''id''), [Get (indexers_url cfg)])"
    by simp
  show "fst (get_configured_indexers cfg (net w)) = Inl (KeyError ''id'')"
    by (simp add: g)
  show "fst (refresh_registry cfg w s) = Inl (KeyError ''id'')"
    by (simp add: refresh_registry_def g)
  show "CACHE_FILE (snd (refresh_registry cfg w s)) = CACHE_FILE s"
    by (simp add: refresh_registry_def g emit_def)
  show "last_cache_update (snd (refresh_registry cfg w s)) = last_cache_update s"
    by (simp add: refresh_registry_def g emit_def)
  show "fst (get_indexers cfg w s) = Inl (KeyError ''id'')"
    by (simp add: get_indexers_def g)
qed

theorem unconfigured_skipped_missing_id_raises_witness:
  "fst (get_configured_indexers example_config example_net)
     = Inr [JStr ''yts'', JStr ''eztv'', JStr ''nyaa'']
   \<and> configured_ids [JObj [(''id'', JStr ''yts''), (''configured'', JBool True)],
                     JObj [(''id'', JStr ''rarbg'')]]
     = configured_ids [JObj [(''id'', JStr ''yts''), (''configured'', JBool True)]]
   \<and> fst (get_configured_indexers example_config broken_net) = Inl (KeyError ''id'')
   \<and> fst (refresh_registry example_config (example_world\<lparr>net := broken_net\<rparr>)
            (process_start 0 Absent)) = Inl (KeyError ''id'')
   \<and> fst (get_indexers example_config (example_world\<lparr>net := broken_net\<rparr>)
            (process_start 0 Absent)) = Inl (KeyError ''id'')"
proof -
  note t = unconfigured_skipped_missing_id_raises
    [of example_config "example_world\<lparr>net := broken_net\<rparr>" "process_start 0 Absent"]
  note u = unconfigured_skipped_missing_id_raises
    [of example_config example_world "process_start 0 Absent"]
  have ne: "net example_world = example_net" by (simp add: example_world_def)
  have ok: "\<forall>d\<in>set [[(''id'', JStr ''yts''), (''configured'', JBool True)],
           [(''id'', JStr ''rarbg'')],
           [(''id'', JStr ''eztv''), (''configured'', JBool True)],
           [(''id'', JStr ''nyaa''), (''configured'', JBool True)]].
         truthy (py_get_default d ''configured'' (JBool False)) \<longrightarrow> map_of d ''id'' \<noteq> None"
    by simp
  from u [THEN conjunct2, THEN conjunct1, THEN spec, THEN spec, THEN mp,
      OF conjI [OF example_indexers_reply [folded ne] ok]]
  have 0: "fst (get_configured_indexers example_config example_net)
     = Inr [JStr ''yts'', JStr ''eztv'', JStr ''nyaa'']"
    by (simp add: ne py_get_default_def py_get_def truthy_def)
  have a: "map_of [(''id'', JStr ''rarbg'')] ''configured'' = None" by simp
  from t have "map_of [(''id'', JStr ''rarbg'')] ''configured'' = None \<longrightarrow>
    configured_ids ([JObj [(''id'', JStr ''yts''), (''configured'', JBool True)]]
                     @ JObj [(''id'', JStr ''rarbg'')] # [])
     = configured_ids ([JObj [(''id'', JStr ''yts''), (''configured'', JBool True)]] @ [])"
    by blast
  with a have 1: "configured_ids [JObj [(''id'', JStr ''yts''), (''configured'', JBool True)],
                   JObj [(''id'', JStr ''rarbg'')]]
     = configured_ids [JObj [(''id'', JStr ''yts''), (''configured'', JBool True)]]"
    by simp
  have n: "net (example_world\<lparr>net := broken_net\<rparr>) = broken_net" by simp
  have b: "\<forall>x\<in>set [JObj [(''id'', JStr ''yts''), (''configured'', JBool True)],
           JObj [(''id'', JStr ''rarbg'')]]. \<exists>dx. x = JObj dx" by simp
  have c: "truthy (py_get_default [(''name'', JStr ''eztv''), (''configured'', JBool True)]
             ''configured'' (JBool False))"
    by (simp add: truthy_def py_get_default_def)
  have d: "map_of [(''name'', JStr ''eztv''), (''configured'', JBool True)] ''id'' = None"
    by simp
  from t [THEN conjunct2, THEN conjunct2, THEN conjunct2, THEN spec [of _ "''OK''"],
      THEN spec [of _ "[(''name'', JStr ''eztv''), (''configured'', JBool True)]"],
      THEN spec [of _ "[JObj [(''id'', JStr ''yts''), (''configured'', JBool True)],
                        JObj [(''id'', JStr ''rarbg'')]]"],
      THEN spec [of _ "[]"]]
    broken_reply b c d
  have 2:
    "fst (get_configured_indexers example_config broken_net) = Inl (KeyError ''id'')
     \<and> fst (refresh_registry example_config (example_world\<lparr>net := broken_net\<rparr>)
            (process_start 0 Absent)) = Inl (KeyError ''id'')
     \<and> fst (get_indexers example_config (example_world\<lparr>net := broken_net\<rparr>)
            (process_start 0 Absent)) = Inl (KeyError ''id'')"
    by (simp only: n)
  from 0 1 2 show ?thesis by blast
qed

lemma save_cache_stamp:
  "last_cache_update (snd (save_cache w ids s)) = last_cache_update s"
  by (simp add: save_cache_def emit_def split: option.splits)

lemma get_indexers_stamp:
  "last_cache_update (snd (get_indexers cfg w s)) = last_cache_update s"
proof (cases "get_configured_indexers cfg (net w)")
  case (Pair r fx)
  show ?thesis
  proof (cases r)
    case (Inl e)
    with Pair show ?thesis by (simp add: get_indexers_def emit_def)
  next
    case (Inr ids)
    have "last_cache_update (snd (save_cache w ids (emit fx s))) = last_cache_update s"
      by (simp add: save_cache_stamp emit_def)
    with Pair Inr show ?thesis
      by (cases "save_cache w ids (emit fx s)")
         (auto simp: get_indexers_def split: option.splits)
  qed
qed

lemma refresh_registry_ok:
  assumes "get_configured_indexers cfg (net w) = (Inr ids, fx)" and "write_raises w = None"
  shows "refresh_registry cfg w s =
           (Inr (JList ids),
            s\<lparr>journal := journal s
                   @ [LogInfo ''Cache is stale or doesn't exist. Fetching configured indexers from Jackett...'']
                   @ fx,
              CACHE_FILE := Stored (JList ids),
              last_cache_update := now_at_stamp w\<rparr>)"
  using assms by (simp add: refresh_registry_def save_cache_def emit_def)

lemma accessor_stale:
  assumes "CACHE_FILE s = Absent \<or> CACHE_DURATION \<le> now_at_check w - last_cache_update s"
  shows "get_configured_indexers_from_file cfg w s = refresh_registry cfg w s"
  using assms by (auto simp: get_configured_indexers_from_file_def)

lemma accessor_fresh:
  assumes "CACHE_FILE s = Stored j" and "read_raises w = None"
    and "now_at_check w - last_cache_update s < CACHE_DURATION"
  shows "get_configured_indexers_from_file cfg w s = (Inr j, s)"
  using assms by (simp add: get_configured_indexers_from_file_def load_cache_def)

lemma example_indexers:
  "get_configured_indexers example_config example_net
     = (Inr example_ids, [Get ''http://jackett:9117/api/v2.0/indexers''])"
  by (simp add: get_configured_indexers_def indexers_attempt_def indexers_reply_def
      indexers_url_def example_config_def example_net_def py_str_def py_iter_def
      py_get_default_def truthy_def example_ids_def)

lemma example_world_simps:
  "net example_world = example_net" "write_raises example_world = None"
  "read_raises example_world = None" "now_at_check example_world = 1000000"
  "now_at_stamp example_world = 2000000"
  by (simp_all add: example_world_def)

text \<open>
  Claim C10. \<open>get_indexers\<close>, the refresh behind \<open>GET /indexers\<close>, leaves
  \<open>last_cache_update\<close> as it was, whatever else it does, so the freshness test of the
  search path gives at every later time what it gave before the call; when the upstream
  call and the write succeed, it returns the identifiers and the cache file holds them.
  A refresh through \<open>get_configured_indexers_from_file\<close> sets \<open>last_cache_update\<close> to
  the time read after the write.
\<close>

theorem get_indexers_keeps_timestamp:
  "last_cache_update (snd (get_indexers cfg w s)) = last_cache_update s
   \<and> (\<forall>t. (t - last_cache_update (snd (get_indexers cfg w s)) < CACHE_DURATION)
          = (t - last_cache_update s < CACHE_DURATION))
   \<and> (\<forall>ids fx. get_configured_indexers cfg (net w) = (Inr ids, fx) \<and> write_raises w = None
        \<longrightarrow> fst (get_indexers cfg w s) = Inr (JObj [(''indexers'', JList ids)])
            \<and> CACHE_FILE (snd (get_indexers cfg w s)) = Stored (JList ids))
   \<and> (\<forall>ids fx. get_configured_indexers cfg (net w) = (Inr ids, fx) \<and> write_raises w = None
          \<and> (CACHE_FILE s = Absent \<or> CACHE_DURATION \<le> now_at_check w - last_cache_update s)
        \<longrightarrow> last_cache_update (snd (get_configured_indexers_from_file cfg w s))
              = now_at_stamp w)"
proof (intro conjI allI impI)
  show "last_cache_update (snd (get_indexers cfg w s)) = last_cache_update s"
    by (rule get_indexers_stamp)
next
  fix t
  show "(t - last_cache_update (snd (get_indexers cfg w s)) < CACHE_DURATION)
          = (t - last_cache_update s < CACHE_DURATION)"
    by (simp add: get_indexers_stamp)
next
  fix ids fx
  assume h: "get_configured_indexers cfg (net w) = (Inr ids, fx) \<and> write_raises w = None"
  then show "fst (get_indexers cfg w s) = Inr (JObj [(''indexers'', JList ids)])"
    by (simp add: get_indexers_def save_cache_def)
  from h show "CACHE_FILE (snd (get_indexers cfg w s)) = Stored (JList ids)"
    by (simp add: get_indexers_def save_cache_def)
next
  fix ids fx
  assume h: "get_configured_indexers cfg (net w) = (Inr ids, fx) \<and> write_raises w = None
          \<and> (CACHE_FILE s = Absent \<or> CACHE_DURATION \<le> now_at_check w - last_cache_update s)"
  then have "get_configured_indexers_from_file cfg w s = refresh_registry cfg w s"
    by (intro accessor_stale) simp
  with h show "last_cache_update (snd (get_configured_indexers_from_file cfg w s))
              = now_at_stamp w"
    by (simp add: refresh_registry_ok)
qed

theorem get_indexers_keeps_timestamp_witness:
  "last_cache_update (snd (get_indexers example_config example_world (process_start 0 Absent))) = 0
   \<and> CACHE_FILE (snd (get_indexers example_config example_world (process_start 0 Absent)))
       = Stored (JList example_ids)
   \<and> last_cache_update (snd (get_configured_indexers_from_file example_config example_world
         (process_start 0 Absent))) = 2000000"
proof -
  note t = get_indexers_keeps_timestamp [of example_config example_world "process_start 0 Absent"]
  have a: "get_configured_indexers example_config (net example_world)
             = (Inr example_ids, [Get ''http://jackett:9117/api/v2.0/indexers''])"
    by (simp add: example_world_simps example_indexers)
  have b: "CACHE_FILE (process_start 0 Absent) = Absent"
    "last_cache_update (process_start 0 Absent) = 0"
    by (simp_all add: process_start_def)
  from t a b example_world_simps(2,5) show ?thesis by auto
qed

lemma indexers_attempt_no_get:
  "filter is_get (snd (indexers_attempt cfg nt)) = []"
  by (simp add: indexers_attempt_def is_get_def Let_def
      split: http_result.splits sum.splits)

lemma get_configured_indexers_one_get:
  "length (filter is_get (snd (get_configured_indexers cfg nt))) = 1"
proof (cases "indexers_attempt cfg nt")
  case (Pair r fx)
  with indexers_attempt_no_get [of cfg nt] have "filter is_get fx = []" by simp
  with Pair show ?thesis
    by (simp add: get_configured_indexers_def is_get_def Let_def split: sum.splits exn.splits)
qed

lemma save_cache_calls:
  "upstream_calls (snd (save_cache w ids s)) = upstream_calls s"
  by (simp add: save_cache_def emit_def upstream_calls_def is_get_def split: option.splits)

lemma refresh_registry_calls:
  "upstream_calls (snd (refresh_registry cfg w s)) = upstream_calls s + 1"
proof (cases "get_configured_indexers cfg (net w)")
  case (Pair r fx)
  with get_configured_indexers_one_get [of cfg "net w"]
  have g: "length (filter is_get fx) = 1" by simp
  show ?thesis
  proof (cases r)
    case (Inl e)
    with Pair g show ?thesis
      by (simp add: refresh_registry_def emit_def upstream_calls_def is_get_def)
  next
    case (Inr ids)
    define s1 where "s1 = emit fx (emit [LogInfo
            ''Cache is stale or doesn't exist. Fetching configured indexers from Jackett...''] s)"
    have c1: "upstream_calls s1 = upstream_calls s + 1"
      using g by (simp add: s1_def emit_def upstream_calls_def is_get_def)
    have c2: "upstream_calls (snd (save_cache w ids s1)) = upstream_calls s + 1"
      by (simp add: save_cache_calls c1)
    show ?thesis
      using Pair Inr c2
      by (cases "save_cache w ids s1")
         (auto simp: refresh_registry_def s1_def upstream_calls_def split: option.splits)
  qed
qed

lemma example_cached_first:
  "now_at_check w - 0 < CACHE_DURATION \<Longrightarrow> read_raises w = None \<Longrightarrow>
   get_configured_indexers_from_file cfg w (process_start 0 (Stored j))
     = (Inr j, process_start 0 (Stored j))"
  by (intro accessor_fresh) (simp_all add: process_start_def)

text \<open>
  Claim C4, as the code has it. Take a call of the accessor that finds the registry
  stale (no cache file, or 30 minutes or more since \<open>last_cache_update\<close>), whose upstream
  list call succeeds and whose write of the cache file succeeds: it makes one upstream
  call. A second call less than 30 minutes after the timestamp the first one set, with
  the file readable, returns the same identifiers from the file and makes no upstream
  call, so the two make exactly one. A second call 30 minutes or more after that
  timestamp makes an upstream call of its own, so the two make exactly two.
\<close>

theorem registry_one_call_within_ttl_two_past_it:
  assumes stale: "CACHE_FILE s0 = Absent
                  \<or> CACHE_DURATION \<le> now_at_check w1 - last_cache_update s0"
    and up: "get_configured_indexers cfg (net w1) = (Inr ids, fx)"
    and wr: "write_raises w1 = None"
    and first: "get_configured_indexers_from_file cfg w1 s0 = (r1, s1)"
  shows "r1 = Inr (JList ids) \<and> upstream_calls s1 = upstream_calls s0 + 1
       \<and> (\<forall>w2. read_raises w2 = None \<and> now_at_check w2 - now_at_stamp w1 < CACHE_DURATION
            \<longrightarrow> get_configured_indexers_from_file cfg w2 s1 = (Inr (JList ids), s1))
       \<and> (\<forall>w2. CACHE_DURATION \<le> now_at_check w2 - now_at_stamp w1
            \<longrightarrow> upstream_calls (snd (get_configured_indexers_from_file cfg w2 s1))
                  = upstream_calls s0 + 2)"
proof -
  have e: "get_configured_indexers_from_file cfg w1 s0 = refresh_registry cfg w1 s0"
    using stale by (rule accessor_stale)
  with first have rs: "refresh_registry cfg w1 s0 = (r1, s1)" by simp
  from refresh_registry_ok [OF up wr, of s0] rs
  have r1: "r1 = Inr (JList ids)"
    and f1: "CACHE_FILE s1 = Stored (JList ids)"
    and t1: "last_cache_update s1 = now_at_stamp w1"
    by auto
  from refresh_registry_calls [of cfg w1 s0] rs
  have c1: "upstream_calls s1 = upstream_calls s0 + 1" by simp
  have fresh: "get_configured_indexers_from_file cfg w2 s1 = (Inr (JList ids), s1)"
    if "read_raises w2 = None \<and> now_at_check w2 - now_at_stamp w1 < CACHE_DURATION" for w2
    using that f1 t1 by (intro accessor_fresh) simp_all
  have past: "upstream_calls (snd (get_configured_indexers_from_file cfg w2 s1))
                  = upstream_calls s0 + 2"
    if "CACHE_DURATION \<le> now_at_check w2 - now_at_stamp w1" for w2
  proof -
    have "get_configured_indexers_from_file cfg w2 s1 = refresh_registry cfg w2 s1"
      using that t1 by (intro accessor_stale) simp
    then show ?thesis by (simp add: refresh_registry_calls c1)
  qed
  show ?thesis using r1 c1 fresh past by blast
qed

theorem registry_one_call_within_ttl_two_past_it_witness:
  "CACHE_FILE (process_start 0 Absent) = Absent
   \<and> upstream_calls (snd (get_configured_indexers_from_file example_config example_world
        (process_start 0 Absent))) = 1
   \<and> upstream_calls (snd (get_configured_indexers_from_file example_config
        (example_world\<lparr>now_at_check := 600000000\<rparr>)
        (snd (get_configured_indexers_from_file example_config example_world
           (process_start 0 Absent))))) = 1
   \<and> upstream_calls (snd (get_configured_indexers_from_file example_config
        (example_world\<lparr>now_at_check := 1802000000\<rparr>)
        (snd (get_configured_indexers_from_file example_config example_world
           (process_start 0 Absent))))) = 2"
proof -
  define s1 where "s1 = snd (get_configured_indexers_from_file example_config example_world
           (process_start 0 Absent))"
  define r1 where "r1 = fst (get_configured_indexers_from_file example_config example_world
           (process_start 0 Absent))"
  have a: "CACHE_FILE (process_start 0 Absent) = Absent
           \<or> CACHE_DURATION \<le> now_at_check example_world - last_cache_update (process_start 0 Absent)"
    by (simp add: process_start_def)
  have b: "get_configured_indexers example_config (net example_world)
             = (Inr example_ids, [Get ''http://jackett:9117/api/v2.0/indexers''])"
    by (simp add: example_world_simps example_indexers)
  have c: "write_raises example_world = None"
    by (simp add: example_world_simps)
  have d: "get_configured_indexers_from_file example_config example_world (process_start 0 Absent)
             = (r1, s1)"
    by (simp add: r1_def s1_def)
  note t = registry_one_call_within_ttl_two_past_it [OF a b c d]
  have z: "upstream_calls (process_start 0 Absent) = 0"
    by (simp add: upstream_calls_def process_start_def)
  have w2: "read_raises (example_world\<lparr>now_at_check := 600000000\<rparr>) = None
            \<and> now_at_check (example_world\<lparr>now_at_check := 600000000\<rparr>) - now_at_stamp example_world
                < CACHE_DURATION"
    by (simp add: example_world_def CACHE_DURATION_def)
  have w3: "CACHE_DURATION \<le> now_at_check (example_world\<lparr>now_at_check := 1802000000\<rparr>)
                - now_at_stamp example_world"
    by (simp add: example_world_def CACHE_DURATION_def)
  from t have 1: "upstream_calls s1 = 1" by (simp add: z)
  from t w2 have "get_configured_indexers_from_file example_config
        (example_world\<lparr>now_at_check := 600000000\<rparr>) s1 = (Inr (JList example_ids), s1)"
    by blast
  then have 2: "upstream_calls (snd (get_configured_indexers_from_file example_config
        (example_world\<lparr>now_at_check := 600000000\<rparr>) s1)) = 1"
    by (simp add: 1)
  from t w3 have 3: "upstream_calls (snd (get_configured_indexers_from_file example_config
        (example_world\<lparr>now_at_check := 1802000000\<rparr>) s1)) = 2"
    by (simp add: z)
  show ?thesis using 1 2 3 unfolding s1_def by (simp add: process_start_def)
qed

text \<open>
  Without these conditions the counts differ. A process that starts next to a cache
  file serves two calls in its first 30 minutes with no upstream call at all, and a call
  past the 30 minutes brings the total to one. When the write of the first refresh raises
  \<open>FileNotFoundError\<close> there is no file for the second call to read, and it refreshes
  again inside the 30 minutes: two upstream calls.
\<close>

theorem registry_call_count_counterexample:
  "upstream_calls (snd (get_configured_indexers_from_file example_config
        (example_world\<lparr>now_at_check := 600000000\<rparr>)
        (snd (get_configured_indexers_from_file example_config example_world
           (process_start 0 (Stored (JList example_ids))))))) = 0
   \<and> upstream_calls (snd (get_configured_indexers_from_file example_config
        (example_world\<lparr>now_at_check := 1802000000\<rparr>)
        (snd (get_configured_indexers_from_file example_config example_world
           (process_start 0 (Stored (JList example_ids))))))) = 1
   \<and> upstream_calls (snd (get_configured_indexers_from_file example_config
        (example_world\<lparr>now_at_check := 600000000\<rparr>)
        (snd (get_configured_indexers_from_file example_config
           (example_world\<lparr>write_raises :=
              Some (FileNotFoundError ''[Errno 2] No such file or directory'')\<rparr>)
           (process_start 0 Absent))))) = 2"
proof -
  have a: "get_configured_indexers_from_file example_config example_world
             (process_start 0 (Stored (JList example_ids)))
           = (Inr (JList example_ids), process_start 0 (Stored (JList example_ids)))"
    by (intro example_cached_first) (simp_all add: example_world_def CACHE_DURATION_def)
  have b: "get_configured_indexers_from_file example_config
             (example_world\<lparr>now_at_check := 600000000\<rparr>)
             (process_start 0 (Stored (JList example_ids)))
           = (Inr (JList example_ids), process_start 0 (Stored (JList example_ids)))"
    by (intro example_cached_first) (simp_all add: example_world_def CACHE_DURATION_def)
  have c: "get_configured_indexers_from_file example_config
             (example_world\<lparr>now_at_check := 1802000000\<rparr>)
             (process_start 0 (Stored (JList example_ids)))
           = refresh_registry example_config (example_world\<lparr>now_at_check := 1802000000\<rparr>)
               (process_start 0 (Stored (JList example_ids)))"
    by (intro accessor_stale) (simp add: example_world_def CACHE_DURATION_def process_start_def)
  have z: "upstream_calls (process_start 0 (Stored (JList example_ids))) = 0"
    by (simp add: upstream_calls_def process_start_def)
  define s1 where "s1 = snd (get_configured_indexers_from_file example_config
           (example_world\<lparr>write_raises :=
              Some (FileNotFoundError ''[Errno 2] No such file or directory'')\<rparr>)
           (process_start 0 Absent))"
  have d: "get_configured_indexers_from_file example_config
           (example_world\<lparr>write_raises :=
              Some (FileNotFoundError ''[Errno 2] No such file or directory'')\<rparr>)
           (process_start 0 Absent)
         = refresh_registry example_config
           (example_world\<lparr>write_raises :=
              Some (FileNotFoundError ''[Errno 2] No such file or directory'')\<rparr>)
           (process_start 0 Absent)"
    by (intro accessor_stale) (simp add: process_start_def)
  have f1: "CACHE_FILE s1 = Absent"
    unfolding s1_def d
    by (simp add: refresh_registry_def save_cache_def cache_handler_catches_def
        process_start_def example_world_def example_indexers emit_def)
  have c1: "upstream_calls s1 = 1"
    unfolding s1_def d
    by (simp add: refresh_registry_calls) (simp add: upstream_calls_def process_start_def)
  have "get_configured_indexers_from_file example_config
          (example_world\<lparr>now_at_check := 600000000\<rparr>) s1
        = refresh_registry example_config (example_world\<lparr>now_at_check := 600000000\<rparr>) s1"
    using f1 by (intro accessor_stale) simp
  then have e: "upstream_calls (snd (get_configured_indexers_from_file example_config
          (example_world\<lparr>now_at_check := 600000000\<rparr>) s1)) = 2"
    by (simp add: refresh_registry_calls c1)
  show ?thesis
    using e unfolding s1_def by (simp add: a b c z refresh_registry_calls)
qed

text \<open>
  Claim C5, as the code has it. The timestamp lives in process memory only and a
  restart sets it to the time of the start. The first call of the accessor after a
  restart refreshes from the upstream when the cache file is missing, when it holds text
  that \<open>json.load\<close> rejects, or when 30 minutes or more have passed since the start. Less
  than 30 minutes after the start, with a cache file that opens and holds JSON, it
  returns the content of the file, whatever its age, and makes no upstream call.
\<close>

theorem first_use_after_restart:
  "(\<forall>j. file = Stored j \<and> read_raises w = None \<and> now_at_check w - t0 < CACHE_DURATION
       \<longrightarrow> get_configured_indexers_from_file cfg w (process_start t0 file)
             = (Inr j, process_start t0 file)
           \<and> upstream_calls (process_start t0 file) = 0)
   \<and> ((file = Absent \<or> CACHE_DURATION \<le> now_at_check w - t0
        \<or> (\<exists>m. file = Garbled m \<and> read_raises w = None))
       \<longrightarrow> upstream_calls (snd (get_configured_indexers_from_file cfg w (process_start t0 file)))
             = 1)"
proof (intro conjI allI impI)
  fix j
  assume "file = Stored j \<and> read_raises w = None \<and> now_at_check w - t0 < CACHE_DURATION"
  then show "get_configured_indexers_from_file cfg w (process_start t0 file)
             = (Inr j, process_start t0 file)"
    by (intro accessor_fresh) (simp_all add: process_start_def)
next
  fix j
  show "upstream_calls (process_start t0 file) = 0"
    by (simp add: upstream_calls_def process_start_def)
next
  assume h: "file = Absent \<or> CACHE_DURATION \<le> now_at_check w - t0
        \<or> (\<exists>m. file = Garbled m \<and> read_raises w = None)"
  have z: "upstream_calls (process_start t0 file) = 0"
    by (simp add: upstream_calls_def process_start_def)
  show "upstream_calls (snd (get_configured_indexers_from_file cfg w (process_start t0 file))) = 1"
  proof (cases "file = Absent \<or> CACHE_DURATION \<le> now_at_check w - t0")
    case True
    then have "get_configured_indexers_from_file cfg w (process_start t0 file)
                 = refresh_registry cfg w (process_start t0 file)"
      by (intro accessor_stale) (simp add: process_start_def)
    then show ?thesis by (simp add: refresh_registry_calls z)
  next
    case False
    with h obtain m where m: "file = Garbled m" "read_raises w = None" by blast
    from False m have "get_configured_indexers_from_file cfg w (process_start t0 file)
        = refresh_registry cfg w
            (emit [LogError (''Error reading cache file: '' @ str_exn (JSONDecodeError m))]
               (process_start t0 file))"
      by (simp add: get_configured_indexers_from_file_def process_start_def load_cache_def
          cache_handler_catches_def)
    then show ?thesis
      by (simp add: refresh_registry_calls)
         (simp add: upstream_calls_def emit_def process_start_def is_get_def)
  qed
qed

theorem first_use_after_restart_witness:
  "get_configured_indexers_from_file example_config example_world
       (process_start 0 (Stored (JList example_ids)))
     = (Inr (JList example_ids), process_start 0 (Stored (JList example_ids)))
   \<and> upstream_calls (snd (get_configured_indexers_from_file example_config example_world
        (process_start 0 Absent))) = 1"
proof -
  have a: "read_raises example_world = None \<and> now_at_check example_world - 0 < CACHE_DURATION"
    by (simp add: example_world_def CACHE_DURATION_def)
  from first_use_after_restart [of "Stored (JList example_ids)" example_world 0 example_config] a
  have 1: "get_configured_indexers_from_file example_config example_world
       (process_start 0 (Stored (JList example_ids)))
     = (Inr (JList example_ids), process_start 0 (Stored (JList example_ids)))"
    by blast
  from first_use_after_restart [of Absent example_world 0 example_config]
  have 2: "upstream_calls (snd (get_configured_indexers_from_file example_config example_world
        (process_start 0 Absent))) = 1"
    by blast
  from 1 2 show ?thesis by blast
qed

text \<open>
  A process started next to a file that lists \<open>rarbg\<close> returns that list on its first
  use, one second after the start, and asks the upstream nothing.
\<close>

theorem restart_serves_old_file_counterexample:
  "get_configured_indexers_from_file example_config example_world
       (process_start 0 (Stored (JList [JStr ''rarbg''])))
     = (Inr (JList [JStr ''rarbg'']), process_start 0 (Stored (JList [JStr ''rarbg''])))
   \<and> upstream_calls (snd (get_configured_indexers_from_file example_config example_world
        (process_start 0 (Stored (JList [JStr ''rarbg'']))))) = 0"
proof -
  have a: "get_configured_indexers_from_file example_config example_world
       (process_start 0 (Stored (JList [JStr ''rarbg''])))
     = (Inr (JList [JStr ''rarbg'']), process_start 0 (Stored (JList [JStr ''rarbg''])))"
    by (intro example_cached_first) (simp_all add: example_world_def CACHE_DURATION_def)
  show ?thesis
    by (simp add: a) (simp add: upstream_calls_def process_start_def)
qed

text \<open>
  Claim C6, at a write that fails. The handler around the write names
  \<open>FileNotFoundError\<close> and \<open>json.JSONDecodeError\<close>. A write that raises
  \<open>PermissionError\<close> ends the refresh of the accessor, and \<open>get_indexers\<close>, with that
  exception, although the upstream call had succeeded; a write that raises
  \<open>FileNotFoundError\<close> is logged and the identifiers are returned.
\<close>

theorem write_failure_propagates:
  "fst (get_configured_indexers_from_file example_config
          (example_world\<lparr>write_raises := Some (PermissionError ''[Errno 13] Permission denied'')\<rparr>)
          (process_start 0 Absent))
     = Inl (PermissionError ''[Errno 13] Permission denied'')
   \<and> fst (get_indexers example_config
          (example_world\<lparr>write_raises := Some (PermissionError ''[Errno 13] Permission denied'')\<rparr>)
          (process_start 0 Absent))
     = Inl (PermissionError ''[Errno 13] Permission denied'')
   \<and> fst (get_configured_indexers_from_file example_config
          (example_world\<lparr>write_raises := Some (FileNotFoundError ''[Errno 2] No such file or directory'')\<rparr>)
          (process_start 0 Absent))
     = Inr (JList example_ids)
   \<and> last (journal (snd (get_configured_indexers_from_file example_config
          (example_world\<lparr>write_raises := Some (FileNotFoundError ''[Errno 2] No such file or directory'')\<rparr>)
          (process_start 0 Absent))))
     = LogError ''Error saving cache file: [Errno 2] No such file or directory''"
  by (simp add: get_configured_indexers_from_file_def refresh_registry_def get_indexers_def
      save_cache_def cache_handler_catches_def process_start_def example_world_def
      example_indexers emit_def str_exn_def)

end
